theory Spec2Isabelle
  imports Complex_Main "HOL-Library.Sublist" "HOL-Library.Log_Nat"
begin

section \<open>JavaScript strings and values\<close>

text \<open>
  A JavaScript string is modelled as a \<open>string\<close> whose characters are the code units
  U+0000 .. U+00FF. On this range \<open>String.prototype.trim\<close> removes tab, line feed,
  vertical tab, form feed, carriage return, space and no-break space, and
  \<open>toLowerCase\<close> maps A-Z and the upper-case Latin-1 letters (U+00C0 .. U+00DE
  without the multiplication sign U+00D7) to the letter 32 positions later, which for
  these letters is the same character with bit 5 set.
\<close>

definition isWhiteSpace :: "char \<Rightarrow> bool" where
  "isWhiteSpace c = (of_char c \<in> {9, 10, 11, 12, 13, 32, 160 :: nat})"

definition trim :: "string \<Rightarrow> string" where
  "trim s = rev (dropWhile isWhiteSpace (rev (dropWhile isWhiteSpace s)))"

definition toLowerChar :: "char \<Rightarrow> char" where
  "toLowerChar c =
     (let n = (of_char c :: nat)
      in if (65 \<le> n \<and> n \<le> 90) \<or> (192 \<le> n \<and> n \<le> 222 \<and> n \<noteq> 215)
         then (case c of Char b0 b1 b2 b3 b4 b5 b6 b7 \<Rightarrow> Char b0 b1 b2 b3 b4 True b6 b7)
         else c)"

definition toLowerCase :: "string \<Rightarrow> string" where
  "toLowerCase s = map toLowerChar s"

definition endsWith :: "string \<Rightarrow> string \<Rightarrow> bool" where
  "endsWith s t = (length t \<le> length s \<and> drop (length s - length t) s = t)"

definition array_includes :: "'a list \<Rightarrow> 'a \<Rightarrow> bool" where
  "array_includes xs x = (x \<in> set xs)"

text \<open>\<open>s.split(sep)\<close> for a one-character separator: never the empty array.\<close>

fun split :: "char \<Rightarrow> string \<Rightarrow> string list" where
  "split sep [] = [[]]"
| "split sep (c # cs) =
     (if c = sep then [] # split sep cs
      else (case split sep cs of [] \<Rightarrow> [[c]] | w # ws \<Rightarrow> (c # w) # ws))"

text \<open>\<open>xs.pop()\<close>, read for its value only: \<open>None\<close> is \<open>undefined\<close>.\<close>

definition pop :: "'a list \<Rightarrow> 'a option" where
  "pop xs = (if xs = [] then None else Some (last xs))"

text \<open>Decimal digits of a natural number, as \<open>Number.prototype.toString\<close> prints an
  integer below \<open>10^21\<close>.\<close>

fun nat_to_string :: "nat \<Rightarrow> string" where
  "nat_to_string n =
     (if n < 10 then [''0123456789'' ! n]
      else nat_to_string (n div 10) @ [''0123456789'' ! (n mod 10)])"

declare nat_to_string.simps [simp del]

definition int_to_string :: "int \<Rightarrow> string" where
  "int_to_string i = (if i < 0 then ''-'' @ nat_to_string (nat (- i)) else nat_to_string (nat i))"

text \<open>A thrown value: an \<open>Error\<close> with its message, or a value that is not an
  \<open>Error\<close> instance.\<close>

datatype thrown = Error string | NonError

text \<open>\<open>error instanceof Error ? error.message : dflt\<close>\<close>

fun message_or :: "string \<Rightarrow> thrown \<Rightarrow> string" where
  "message_or dflt (Error m) = m"
| "message_or dflt NonError = dflt"

section \<open>fileProcessing.ts: formatFileSize\<close>

text \<open>
  \<open>formatFileSize\<close> is modelled on integral byte counts (\<open>File.size\<close> is integral), in
  exact arithmetic. For counts below \<open>2^53\<close> the division by a power of 1024 is exact in
  binary floating point as well, and the repository's tests fix the index at the powers
  1024, 1048576 and 1073741824 to the exact one.
  \<^item> \<open>ilog k b\<close> is \<open>Math.floor(Math.log(b) / Math.log(k))\<close>, the number of times
    \<open>b\<close> can be divided by \<open>k\<close> before it drops below \<open>k\<close>;
  \<^item> \<open>toFixed2 b d\<close> is the integer \<open>n\<close> that \<open>(b / d).toFixed(2)\<close> prints as \<open>n / 100\<close>:
    the \<open>n\<close> with \<open>n / 100\<close> nearest to \<open>b / d\<close>, the larger one on a tie;
  \<^item> \<open>show_hundredths n\<close> is what \<open>parseFloat\<close> of that text prints when it is
    concatenated to a string: the shortest decimal of \<open>n / 100\<close>;
  \<^item> \<open>sizes[i]\<close> out of range is \<open>undefined\<close>, which concatenates as the text
    \<open>undefined\<close>.
\<close>

fun ilog :: "nat \<Rightarrow> nat \<Rightarrow> nat" where
  "ilog k b = (if k < 2 \<or> b < k then 0 else Suc (ilog k (b div k)))"

declare ilog.simps [simp del]

definition toFixed2 :: "nat \<Rightarrow> nat \<Rightarrow> nat" where
  "toFixed2 b d = (2 * 100 * b + d) div (2 * d)"

definition show_hundredths :: "nat \<Rightarrow> string" where
  "show_hundredths n =
     nat_to_string (n div 100) @
     (if n mod 100 = 0 then ''''
      else if n mod 10 = 0 then ''.'' @ nat_to_string (n mod 100 div 10)
      else ''.'' @ nat_to_string (n mod 100 div 10) @ nat_to_string (n mod 10))"

definition sizes :: "string list" where
  "sizes = [''Bytes'', ''KB'', ''MB'', ''GB'']"

definition index_or_undefined :: "string list \<Rightarrow> nat \<Rightarrow> string" where
  "index_or_undefined xs i = (if i < length xs then xs ! i else ''undefined'')"

definition formatFileSize :: "int \<Rightarrow> string" where
  "formatFileSize bytes =
     (if bytes = 0 then ''0 Bytes''
      else if bytes < 0 then ''Invalid size''
      else let k = 1024;
               i = ilog k (nat bytes)
           in show_hundredths (toFixed2 (nat bytes) (k ^ i)) @ '' '' @ index_or_undefined sizes i)"

section \<open>fileProcessing.ts: validateFile\<close>

record File =
  name :: string
  type :: string
  size :: nat

record ExtractTextOptions =
  maxFileSize :: "int option"
  supportedTypes :: "string list option"
  supportedExtensions :: "string list option"

definition DEFAULT_OPTIONS :: ExtractTextOptions where
  "DEFAULT_OPTIONS =
     \<lparr> maxFileSize = Some (10 * 1024 * 1024),
       supportedTypes = Some
         [''text/plain'',
          ''application/vnd.openxmlformats-officedocument.wordprocessingml.document'',
          ''application/pdf''],
       supportedExtensions = Some [''.txt'', ''.docx'', ''.pdf''] \<rparr>"

text \<open>\<open>'.' + file.name.split('.').pop()?.toLowerCase()\<close>\<close>

definition fileExtension :: "File \<Rightarrow> string" where
  "fileExtension file =
     ''.'' @ (case pop (split (CHR ''.'') (name file)) of
                None \<Rightarrow> ''undefined''
              | Some s \<Rightarrow> toLowerCase s)"

text \<open>\<open>xs?.includes(x)\<close>, read for its truth value.\<close>

definition opt_includes :: "'a list option \<Rightarrow> 'a \<Rightarrow> bool" where
  "opt_includes xs x = (case xs of None \<Rightarrow> False | Some ys \<Rightarrow> array_includes ys x)"

text \<open>The size test \<open>maxFileSize && file.size > maxFileSize\<close> holds for a ceiling that is
  given, is not 0 and is exceeded; it comes before the type test.\<close>

definition validateFile :: "File \<Rightarrow> ExtractTextOptions \<Rightarrow> thrown + unit" where
  "validateFile file options =
     (case (case maxFileSize options of
              None \<Rightarrow> None
            | Some m \<Rightarrow> if m \<noteq> 0 \<and> int (size file) > m then Some m else None) of
        Some m \<Rightarrow> Inl (Error (''File size must be less than '' @ formatFileSize m))
      | None \<Rightarrow>
          (let isValidType = opt_includes (supportedTypes options) (type file);
               isValidExtension = opt_includes (supportedExtensions options) (fileExtension file)
           in if \<not> isValidType \<and> \<not> isValidExtension
              then Inl (Error ''Please upload a TXT, DOCX, or PDF file'')
              else Inr ()))"

section \<open>Values read from JSON\<close>

text \<open>
  A value as \<open>response.json()\<close> delivers it, \<open>undefined\<close> for what is missing and
  \<open>NaN\<close> for a sum that is no number. Numbers are the integers (token counts). Property reads are modelled for the names this
  program reads (\<open>choices\<close>, \<open>message\<close>, \<open>content\<close>, \<open>usage\<close>, ...), none of
  which is a built-in member of a string, number, boolean or array, so that reading them
  from such a value gives \<open>undefined\<close>. The message of the \<open>TypeError\<close> raised by a
  read from \<open>undefined\<close> or \<open>null\<close> is the engine's; V8's wording is used.
\<close>

datatype jsval =
    JUndefined
  | JNull
  | JBool bool
  | JNum int
  | JNaN
  | JStr string
  | JArr "jsval list"
  | JObj "(string \<times> jsval) list"

definition type_error :: "string \<Rightarrow> string \<Rightarrow> thrown" where
  "type_error base key =
     Error (''Cannot read properties of '' @ base @ '' (reading '' @ [CHR 0x27] @ key @ [CHR 0x27] @ '')'')"

text \<open>An object's property: of duplicate keys in the JSON text the last one counts.\<close>

definition own_property :: "(string \<times> jsval) list \<Rightarrow> string \<Rightarrow> jsval" where
  "own_property kvs key = (case map_of (rev kvs) key of None \<Rightarrow> JUndefined | Some v \<Rightarrow> v)"

text \<open>\<open>v.key\<close>\<close>

fun member :: "jsval \<Rightarrow> string \<Rightarrow> thrown + jsval" where
  "member JUndefined key = Inl (type_error ''undefined'' key)"
| "member JNull key = Inl (type_error ''null'' key)"
| "member (JObj kvs) key = Inr (own_property kvs key)"
| "member v key = Inr JUndefined"

text \<open>\<open>v?.key\<close>\<close>

fun opt_member :: "jsval \<Rightarrow> string \<Rightarrow> jsval" where
  "opt_member (JObj kvs) key = own_property kvs key"
| "opt_member v key = JUndefined"

text \<open>\<open>v[0]\<close>\<close>

fun index0 :: "jsval \<Rightarrow> thrown + jsval" where
  "index0 JUndefined = Inl (type_error ''undefined'' ''0'')"
| "index0 JNull = Inl (type_error ''null'' ''0'')"
| "index0 (JArr xs) = Inr (case xs of [] \<Rightarrow> JUndefined | x # _ \<Rightarrow> x)"
| "index0 (JStr s) = Inr (case s of [] \<Rightarrow> JUndefined | c # _ \<Rightarrow> JStr [c])"
| "index0 (JObj kvs) = Inr (own_property kvs ''0'')"
| "index0 v = Inr JUndefined"

text \<open>\<open>a ?? b\<close>\<close>

fun nullish_or :: "jsval \<Rightarrow> jsval \<Rightarrow> jsval" where
  "nullish_or JUndefined b = b"
| "nullish_or JNull b = b"
| "nullish_or a b = a"

fun truthy :: "jsval \<Rightarrow> bool" where
  "truthy JUndefined = False"
| "truthy JNull = False"
| "truthy (JBool b) = b"
| "truthy (JNum n) = (n \<noteq> 0)"
| "truthy JNaN = False"
| "truthy (JStr s) = (s \<noteq> [])"
| "truthy v = True"

text \<open>\<open>a || b\<close>\<close>

definition or_else :: "jsval \<Rightarrow> jsval \<Rightarrow> jsval" where
  "or_else a b = (if truthy a then a else b)"

fun join :: "string \<Rightarrow> string list \<Rightarrow> string" where
  "join sep [] = []"
| "join sep [x] = x"
| "join sep (x # y # ys) = x @ sep @ join sep (y # ys)"

text \<open>\<open>String(v)\<close>: an array prints its elements joined by commas, \<open>null\<close> and
  \<open>undefined\<close> elements as nothing.\<close>

fun to_string :: "jsval \<Rightarrow> string" where
  "to_string JUndefined = ''undefined''"
| "to_string JNull = ''null''"
| "to_string (JBool b) = (if b then ''true'' else ''false'')"
| "to_string (JNum n) = int_to_string n"
| "to_string JNaN = ''NaN''"
| "to_string (JStr s) = s"
| "to_string (JArr xs) =
     join '','' (map (\<lambda>x. if x = JUndefined \<or> x = JNull then [] else to_string x) xs)"
| "to_string (JObj kvs) = ''[object Object]''"

text \<open>\<open>a + b\<close>: concatenation as soon as one side is a string, an array or an object;
  otherwise the sum of the two sides as numbers, \<open>NaN\<close> when a side is \<open>undefined\<close> or
  \<open>NaN\<close>.\<close>

fun is_primitive_number :: "jsval \<Rightarrow> bool" where
  "is_primitive_number (JStr s) = False"
| "is_primitive_number (JArr xs) = False"
| "is_primitive_number (JObj kvs) = False"
| "is_primitive_number v = True"

fun to_number :: "jsval \<Rightarrow> int option" where
  "to_number JNull = Some 0"
| "to_number (JBool b) = Some (if b then 1 else 0)"
| "to_number (JNum n) = Some n"
| "to_number v = None"

definition js_add :: "jsval \<Rightarrow> jsval \<Rightarrow> jsval" where
  "js_add a b =
     (if is_primitive_number a \<and> is_primitive_number b
      then (case (to_number a, to_number b) of
              (Some x, Some y) \<Rightarrow> JNum (x + y)
            | _ \<Rightarrow> JNaN)
      else JStr (to_string a @ to_string b))"

section \<open>types.ts\<close>

record LLMProvider =
  id :: string
  provider_name :: string
  baseUrl :: string
  requiresApiKey :: bool
  models :: "string list"

record ConversionExample =
  example_id :: string
  example_name :: string
  originalText :: string
  convertedMarkdown :: string
  pleadingType :: string

text \<open>The optional fields \<open>customBaseUrl?\<close> and \<open>customModel?\<close> are \<open>None\<close> when absent.\<close>

record ConversionSettings =
  provider :: string
  model :: string
  apiKey :: string
  temperature :: rat
  maxTokens :: int
  useExamples :: bool
  selectedExamples :: "string list"
  customPrompt :: string
  customBaseUrl :: "string option"
  customModel :: "string option"

text \<open>
  The object both entry points of the LLM client resolve with:
  \<open>Succeeded v t ms\<close> is \<open>{success: true, markdown: v, tokensUsed: t, processingTime: ms}\<close>
  (for \<open>processText\<close> the field \<open>v\<close> is named \<open>content\<close>), and \<open>Failed m ms\<close> is
  \<open>{success: false, error: m, processingTime: ms}\<close>.
\<close>

datatype LLMResult = Succeeded jsval jsval int | Failed string int

section \<open>Effects\<close>

text \<open>
  An asynchronous function is modelled by what it leaves behind: the list of the
  effects it performed, in order, and either the value it resolves with (\<open>Inr\<close>) or the
  value it rejects with (\<open>Inl\<close>).
\<close>

type_synonym ('e, 'a) io = "'e list \<times> (thrown + 'a)"

definition io_return :: "'a \<Rightarrow> ('e, 'a) io" where
  "io_return x = ([], Inr x)"

definition io_throw :: "thrown \<Rightarrow> ('e, 'a) io" where
  "io_throw e = ([], Inl e)"

definition io_throw_or_return :: "thrown + 'a \<Rightarrow> ('e, 'a) io" where
  "io_throw_or_return r = ([], r)"

definition io_effect :: "'e \<Rightarrow> thrown + 'a \<Rightarrow> ('e, 'a) io" where
  "io_effect ev r = ([ev], r)"

definition io_bind :: "('e, 'a) io \<Rightarrow> ('a \<Rightarrow> ('e, 'b) io) \<Rightarrow> ('e, 'b) io" where
  "io_bind m f =
     (case m of
        (t, Inl e) \<Rightarrow> (t, Inl e)
      | (t, Inr x) \<Rightarrow> (case f x of (t', r) \<Rightarrow> (t @ t', r)))"

text \<open>\<open>try { m } catch (error) { h error }\<close>\<close>

definition io_catch :: "('e, 'a) io \<Rightarrow> (thrown \<Rightarrow> ('e, 'a) io) \<Rightarrow> ('e, 'a) io" where
  "io_catch m h =
     (case m of
        (t, Inl e) \<Rightarrow> (case h e of (t', r) \<Rightarrow> (t @ t', r))
      | (t, Inr x) \<Rightarrow> (t, Inr x))"

section \<open>fileProcessing.ts: the extractors\<close>

text \<open>
  What \<open>fileProcessing.ts\<close> calls and does not define is a parameter of the model:
  \<^item> \<open>FileReader\<close>: a read ends in \<open>onerror\<close>, or in \<open>onload\<close> with the result; for
    \<open>readAsArrayBuffer\<close> the result may be missing, which the code tests;
  \<^item> \<open>mammoth.extractRawText\<close>: the \<open>value\<close> of its result, or what it throws;
  \<^item> \<open>pdfjs getDocument\<close>: the document, or what it throws. A document is the list
    of its pages, a page the text items \<open>getPage\<close> and \<open>getTextContent\<close> give or what
    one of them throws, an item its \<open>str\<close> when that is a string;
  \<^item> \<open>LLMService.processText\<close>, as the caller sees it (a test may replace it): the
    result it resolves with, or what it rejects with.
\<close>

datatype 'a read_result = OnError | OnLoad 'a

type_synonym ArrayBuffer = "nat list"

type_synonym TextItem = "string option"

type_synonym PDFDocument = "(thrown + TextItem list) list"

record Env =
  readAsText :: "File \<Rightarrow> string read_result"
  readAsArrayBuffer :: "File \<Rightarrow> ArrayBuffer option read_result"
  extractRawText :: "ArrayBuffer option \<Rightarrow> thrown + string"
  getDocument :: "ArrayBuffer \<Rightarrow> thrown + PDFDocument"
  LLMService_processText :: "string \<Rightarrow> ConversionSettings \<Rightarrow> thrown + LLMResult"

datatype event =
    ReadAsText
  | ReadAsArrayBuffer
  | ExtractRawText
  | GetDocument
  | GetPage nat
  | ProcessText string
  | Warn string

definition extractTextFromTxt :: "Env \<Rightarrow> File \<Rightarrow> (event, string) io" where
  "extractTextFromTxt env file =
     io_effect ReadAsText
       (case readAsText env file of
          OnError \<Rightarrow> Inl (Error ''Failed to read text file'')
        | OnLoad text \<Rightarrow> Inr text)"

definition extractTextFromDocx :: "Env \<Rightarrow> File \<Rightarrow> (event, string) io" where
  "extractTextFromDocx env file =
     (case readAsArrayBuffer env file of
        OnError \<Rightarrow> io_effect ReadAsArrayBuffer (Inl (Error ''Failed to read DOCX file''))
      | OnLoad arrayBuffer \<Rightarrow>
          io_bind (io_effect ReadAsArrayBuffer (Inr ())) (\<lambda>_.
          io_catch (io_effect ExtractRawText (extractRawText env arrayBuffer))
            (\<lambda>error. io_throw (Error ''Failed to extract text from DOCX file''))))"

text \<open>The text of one page: the items with a non-empty string, trimmed, the empty ones
  dropped, joined by single spaces.\<close>

definition pageText :: "TextItem list \<Rightarrow> string" where
  "pageText items =
     join '' ''
       (filter (\<lambda>str. length str > 0)
          (map trim
             (concat (map (\<lambda>item. case item of None \<Rightarrow> [] | Some str \<Rightarrow> if str = [] then [] else [str])
                        items))))"

text \<open>The loop over the pages \<open>pageNum, pageNum + 1, ...\<close> with \<open>fullText\<close> so far.\<close>

fun extractPages :: "(thrown + TextItem list) list \<Rightarrow> nat \<Rightarrow> string \<Rightarrow> (event, string) io" where
  "extractPages [] pageNum fullText = io_return fullText"
| "extractPages (page # rest) pageNum fullText =
     io_bind (io_effect (GetPage pageNum) page) (\<lambda>items.
       let text = pageText items
       in extractPages rest (pageNum + 1)
            (if text \<noteq> [] then fullText @ text @ ''\<newline>\<newline>'' else fullText))"

definition extractTextFromPdf :: "Env \<Rightarrow> File \<Rightarrow> (event, string) io" where
  "extractTextFromPdf env file =
     (case readAsArrayBuffer env file of
        OnError \<Rightarrow> io_effect ReadAsArrayBuffer (Inl (Error ''Failed to read PDF file''))
      | OnLoad arrayBuffer \<Rightarrow>
          io_bind (io_effect ReadAsArrayBuffer (Inr ())) (\<lambda>_.
          io_catch
            (case arrayBuffer of
               None \<Rightarrow> io_throw (Error ''Failed to read file content'')
             | Some data \<Rightarrow>
                 io_bind (io_effect GetDocument (getDocument env data)) (\<lambda>pdfDocument.
                 io_bind (extractPages pdfDocument 1 []) (\<lambda>fullText.
                   let trimmedText = trim fullText
                   in if trimmedText = []
                      then io_throw (Error (''No readable text found in PDF. The PDF may not contain selectable text or may be image-based. '' @
                                            ''Please ensure the PDF is OCRed and contains selectable text.''))
                      else io_return trimmedText)))
            (\<lambda>error. io_throw (Error (''Failed to extract text from PDF: '' @ message_or ''Unknown error'' error @
                                       ''. Please ensure the PDF contains selectable text.'')))))"

section \<open>fileProcessing.ts: cleanTextWithLLM and extractText\<close>

definition cleaningPrompt :: "string \<Rightarrow> string" where
  "cleaningPrompt rawText =
     join ''\<newline>''
       [''You are a document processing expert. Clean the following extracted PDF text by:'',
        [],
        ''1. Remove headers, footers, page numbers, and watermarks'',
        ''2. Remove repetitive formatting artifacts and OCR noise'',
        ''3. Fix broken words and sentences caused by PDF extraction'',
        ''4. Maintain the logical structure and flow of the legal document'',
        ''5. Preserve important legal content, case citations, and references'',
        ''6. Remove unnecessary whitespace and formatting characters'',
        ''7. Ensure paragraphs flow naturally'',
        ''8. Keep numbered sections and legal formatting intact'',
        ''9. Remove any gibberish or corrupted text fragments'',
        ''10. Ensure the text is coherent and readable'',
        [],
        ''IMPORTANT: Only return the cleaned text content. Do not add any explanations, comments, or markdown formatting.'',
        [],
        ''Raw extracted text:'',
        rawText,
        [],
        ''Cleaned text:'']"

text \<open>
  \<open>result.success && result.content?.trim()\<close> followed by \<open>result.content.trim()\<close>: the
  trimmed content when the call succeeded with a string that is not blank; \<open>None\<close> when
  the test is false; a \<open>TypeError\<close> when the content is neither a string nor missing
  (such a value has no \<open>trim\<close>).
\<close>

fun cleanedContent :: "LLMResult \<Rightarrow> thrown + string option" where
  "cleanedContent (Failed m ms) = Inr None"
| "cleanedContent (Succeeded JUndefined t ms) = Inr None"
| "cleanedContent (Succeeded JNull t ms) = Inr None"
| "cleanedContent (Succeeded (JStr s) t ms) = Inr (if trim s = [] then None else Some (trim s))"
| "cleanedContent (Succeeded v t ms) = Inl (Error ''result.content?.trim is not a function'')"

definition cleanTextWithLLM :: "Env \<Rightarrow> string \<Rightarrow> ConversionSettings \<Rightarrow> (event, string) io" where
  "cleanTextWithLLM env rawText settings =
     (if rawText = [] \<or> length (trim rawText) = 0
      then io_throw (Error ''No text content to clean'')
      else
        io_catch
          (io_bind (io_effect (ProcessText (cleaningPrompt rawText))
                      (LLMService_processText env (cleaningPrompt rawText) settings)) (\<lambda>result.
           io_bind (io_throw_or_return (cleanedContent result)) (\<lambda>cleaned.
             case cleaned of
               Some content \<Rightarrow> io_return content
             | None \<Rightarrow>
                 io_effect (Warn ''LLM text cleaning failed, using raw extracted text'') (Inr rawText))))
          (\<lambda>error. io_effect (Warn ''LLM text cleaning error, using raw extracted text:'') (Inr rawText)))"

definition extractText :: "Env \<Rightarrow> File \<Rightarrow> ConversionSettings option \<Rightarrow> (event, string) io" where
  "extractText env file settings =
     io_bind (io_throw_or_return (validateFile file DEFAULT_OPTIONS)) (\<lambda>_.
       let fileType = type file;
           fileName = toLowerCase (name file)
       in io_catch
            (if fileType = ''text/plain'' \<or> endsWith fileName ''.txt''
             then extractTextFromTxt env file
             else if fileType = ''application/vnd.openxmlformats-officedocument.wordprocessingml.document''
                     \<or> endsWith fileName ''.docx''
             then extractTextFromDocx env file
             else if fileType = ''application/pdf'' \<or> endsWith fileName ''.pdf''
             then (case settings of
                     None \<Rightarrow> io_throw (Error ''PDF processing requires LLM settings for text cleaning'')
                   | Some s \<Rightarrow>
                       io_bind (extractTextFromPdf env file) (\<lambda>rawText.
                         cleanTextWithLLM env rawText s))
             else io_throw (Error (''Unsupported file type: '' @ fileType)))
            (\<lambda>error. io_throw (Error (''Failed to extract text: '' @ message_or ''Unknown error'' error))))"

section \<open>llmProviders.ts: the provider registry\<close>

definition LLM_PROVIDERS :: "LLMProvider list" where
  "LLM_PROVIDERS =
     [\<lparr> id = ''local'',
        provider_name = ''Local/Custom API'',
        baseUrl = ''http://localhost:11434/v1'',
        requiresApiKey = False,
        models = [''custom''] \<rparr>,
      \<lparr> id = ''openai'',
        provider_name = ''OpenAI'',
        baseUrl = ''https://api.openai.com/v1'',
        requiresApiKey = True,
        models = [''gpt-4o'', ''gpt-4o-mini'', ''gpt-4-turbo'', ''gpt-3.5-turbo''] \<rparr>,
      \<lparr> id = ''anthropic'',
        provider_name = ''Anthropic Claude'',
        baseUrl = ''https://api.anthropic.com/v1'',
        requiresApiKey = True,
        models = [''claude-3-5-sonnet-20241022'', ''claude-3-haiku-20240307'', ''claude-3-opus-20240229''] \<rparr>,
      \<lparr> id = ''groq'',
        provider_name = ''Groq'',
        baseUrl = ''https://api.groq.com/openai/v1'',
        requiresApiKey = True,
        models = [''llama3-8b-8192'', ''llama3-70b-8192'', ''mixtral-8x7b-32768'', ''gemma-7b-it''] \<rparr>]"

section \<open>llmProviders.ts: buildPrompt\<close>

text \<open>The default template, line by line; the template literal ends in two line feeds.\<close>

definition defaultTemplateLines :: "string list" where
  "defaultTemplateLines =
       [''You are an expert legal document processor specializing in Singapore civil litigation. Convert the following legal pleading to clean, well-structured markdown format.'',
        [],
        ''CRITICAL REQUIREMENTS:'',
        ''1. Preserve the document's legal structure and hierarchy'',
        ''2. Convert numbered paragraphs to proper markdown format'',
        ''3. Format case citations appropriately with proper emphasis'',
        ''4. Maintain legal formatting conventions (e.g., party names, case references)'',
        ''5. Ensure headers and sections are properly structured using markdown headers (# ## ###)'',
        ''6. Convert tables and lists to markdown format'',
        ''7. Preserve important legal numbering and cross-references'',
        ''8. Focus on the substantive legal content only'',
        [],
        ''FORMATTING GUIDELINES:'',
        ''- Use # for main document title'',
        ''- Use ## for major sections (e.g., \"STATEMENT OF CLAIM\", \"PRAYER FOR RELIEF\")'',
        ''- Use ### for subsections'',
        ''- Use numbered lists for legal paragraphs (1. 2. 3.)'',
        ''- Use **bold** for party names, case names, and important legal terms'',
        ''- Use *italics* for case citations and legal references'',
        ''- Use > for quoted text or legal provisions'',
        ''- Preserve the logical flow and legal reasoning structure'',
        [],
        []]"

definition defaultTemplate :: string where
  "defaultTemplate = join ''\<newline>'' defaultTemplateLines"

text \<open>The body of \<open>examples.forEach((example, index) => ...)\<close>, from \<open>index\<close> on.\<close>

fun examplesBlock :: "ConversionExample list \<Rightarrow> nat \<Rightarrow> string" where
  "examplesBlock [] index = []"
| "examplesBlock (example # rest) index =
     (''Example '' @ nat_to_string (index + 1) @ '' ('' @ pleadingType example @ ''):\<newline>'') @
     (''Original:\<newline>'' @ originalText example @ ''\<newline>\<newline>'') @
     (''Converted:\<newline>'' @ convertedMarkdown example @ ''\<newline>\<newline>'') @
     examplesBlock rest (index + 1)"

text \<open>\<open>customPrompt && customPrompt.trim()\<close> as a condition, for an optional string.\<close>

definition hasCustomPrompt :: "string option \<Rightarrow> bool" where
  "hasCustomPrompt custom =
     (case custom of None \<Rightarrow> False | Some c \<Rightarrow> c \<noteq> [] \<and> trim c \<noteq> [])"

definition buildPrompt :: "string \<Rightarrow> ConversionExample list \<Rightarrow> string option \<Rightarrow> string" where
  "buildPrompt text examples custom =
     (if hasCustomPrompt custom
      then trim (case custom of Some c \<Rightarrow> c | None \<Rightarrow> []) @
           ''\<newline>\<newline>Now convert this legal pleading:\<newline>\<newline>'' @ text @
           ''\<newline>\<newline>Provide only the clean markdown conversion:''
      else defaultTemplate @
           (if length examples > 0
            then ''\<newline>Here are examples of good conversions:\<newline>\<newline>'' @ examplesBlock examples 0
            else []) @
           ''\<newline>Now convert this legal pleading:\<newline>\<newline>'' @ text @
           ''\<newline>\<newline>Provide only the clean markdown conversion:'')"

section \<open>llmProviders.ts: the provider calls\<close>

text \<open>
  A request is the pair of arguments of \<open>fetch\<close>, with the body as the object given to
  \<open>JSON.stringify\<close>: \<open>{model, messages: [{role, content}], temperature, max_tokens}\<close>.
  A response carries its status line and what \<open>json()\<close> and \<open>text()\<close> resolve or
  reject with (the latter is the field \<open>response_text\<close>); \<open>response.ok\<close> is a status from 200 to 299. The network is a parameter:
  \<open>fetch\<close> resolves with a response or rejects, and \<open>Date.now()\<close> is read once when a
  call starts and once when its result is built.
\<close>

record Message =
  role :: string
  content :: string

record RequestBody =
  body_model :: string
  body_messages :: "Message list"
  body_temperature :: rat
  body_max_tokens :: int

record Request =
  url :: string
  http_method :: string
  headers :: "(string \<times> string) list"
  body :: RequestBody

record Response =
  status :: nat
  statusText :: string
  json :: "thrown + jsval"
  response_text :: "thrown + string"

definition ok :: "Response \<Rightarrow> bool" where
  "ok response = (200 \<le> status response \<and> status response \<le> 299)"

record Net =
  fetch :: "Request \<Rightarrow> thrown + Response"
  now_at_start :: int
  now_at_end :: int

definition sum_bind :: "thrown + 'a \<Rightarrow> ('a \<Rightarrow> thrown + 'b) \<Rightarrow> thrown + 'b" where
  "sum_bind m f = (case m of Inl e \<Rightarrow> Inl e | Inr x \<Rightarrow> f x)"

text \<open>\<open>s || dflt\<close> for an optional string.\<close>

definition string_or :: "string option \<Rightarrow> string \<Rightarrow> string" where
  "string_or s dflt = (case s of None \<Rightarrow> dflt | Some v \<Rightarrow> if v = [] then dflt else v)"

definition chatBody :: "string \<Rightarrow> string \<Rightarrow> ConversionSettings \<Rightarrow> RequestBody" where
  "chatBody m prompt settings =
     \<lparr> body_model = m,
       body_messages = [\<lparr> role = ''user'', content = prompt \<rparr>],
       body_temperature = temperature settings,
       body_max_tokens = maxTokens settings \<rparr>"

text \<open>\<open>data.choices[0].message.content\<close>\<close>

definition choiceContent :: "jsval \<Rightarrow> thrown + jsval" where
  "choiceContent data =
     sum_bind (member data ''choices'') (\<lambda>choices.
     sum_bind (index0 choices) (\<lambda>choice.
     sum_bind (member choice ''message'') (\<lambda>message.
     member message ''content'')))"

text \<open>\<open>data.usage?.total_tokens ?? 0\<close>\<close>

definition totalTokens :: "jsval \<Rightarrow> thrown + jsval" where
  "totalTokens data =
     sum_bind (member data ''usage'') (\<lambda>usage.
     Inr (nullish_or (opt_member usage ''total_tokens'') (JNum 0)))"

text \<open>\<open>new Error(error.error?.message || dflt)\<close>\<close>

definition apiError :: "jsval \<Rightarrow> string \<Rightarrow> thrown + thrown" where
  "apiError error dflt =
     sum_bind (member error ''error'') (\<lambda>e.
     Inr (Error (to_string (or_else (opt_member e ''message'') (JStr dflt)))))"

text \<open>The request shape shared by \<open>callOpenAI\<close> and \<open>callGroq\<close>, which differ in the
  provider's name in the two messages.\<close>

definition callBearer ::
  "string \<Rightarrow> Net \<Rightarrow> string \<Rightarrow> ConversionSettings \<Rightarrow> LLMProvider \<Rightarrow> (Request, jsval \<times> jsval) io" where
  "callBearer who net prompt settings prov =
     (if apiKey settings = []
      then io_throw (Error (who @ '' API key is required''))
      else
        let request =
              \<lparr> url = baseUrl prov @ ''/chat/completions'',
                http_method = ''POST'',
                headers = [(''Content-Type'', ''application/json''),
                           (''Authorization'', ''Bearer '' @ apiKey settings)],
                body = chatBody (model settings) prompt settings \<rparr>
        in io_bind (io_effect request (fetch net request)) (\<lambda>response.
             if \<not> ok response
             then io_bind (io_throw_or_return (json response)) (\<lambda>error.
                  io_bind (io_throw_or_return (apiError error (who @ '' API request failed''))) io_throw)
             else io_bind (io_throw_or_return (json response)) (\<lambda>data.
                  io_bind (io_throw_or_return (choiceContent data)) (\<lambda>c.
                  io_bind (io_throw_or_return (totalTokens data)) (\<lambda>tokensUsed.
                    io_return (c, tokensUsed))))))"

definition callOpenAI ::
  "Net \<Rightarrow> string \<Rightarrow> ConversionSettings \<Rightarrow> LLMProvider \<Rightarrow> (Request, jsval \<times> jsval) io" where
  "callOpenAI = callBearer ''OpenAI''"

definition callGroq ::
  "Net \<Rightarrow> string \<Rightarrow> ConversionSettings \<Rightarrow> LLMProvider \<Rightarrow> (Request, jsval \<times> jsval) io" where
  "callGroq = callBearer ''Groq''"

text \<open>\<open>data.content[0].text\<close>\<close>

definition anthropicContent :: "jsval \<Rightarrow> thrown + jsval" where
  "anthropicContent data =
     sum_bind (member data ''content'') (\<lambda>blocks.
     sum_bind (index0 blocks) (\<lambda>block.
     member block ''text''))"

text \<open>\<open>(data.usage?.input_tokens ?? 0) + (data.usage?.output_tokens ?? 0)\<close>\<close>

definition anthropicTokens :: "jsval \<Rightarrow> thrown + jsval" where
  "anthropicTokens data =
     sum_bind (member data ''usage'') (\<lambda>usage.
     Inr (js_add (nullish_or (opt_member usage ''input_tokens'') (JNum 0))
                 (nullish_or (opt_member usage ''output_tokens'') (JNum 0))))"

definition callAnthropic ::
  "Net \<Rightarrow> string \<Rightarrow> ConversionSettings \<Rightarrow> LLMProvider \<Rightarrow> (Request, jsval \<times> jsval) io" where
  "callAnthropic net prompt settings prov =
     (if apiKey settings = []
      then io_throw (Error ''Anthropic API key is required'')
      else
        let request =
              \<lparr> url = baseUrl prov @ ''/messages'',
                http_method = ''POST'',
                headers = [(''Content-Type'', ''application/json''),
                           (''x-api-key'', apiKey settings),
                           (''anthropic-version'', ''2023-06-01'')],
                body = chatBody (model settings) prompt settings \<rparr>
        in io_bind (io_effect request (fetch net request)) (\<lambda>response.
             if \<not> ok response
             then io_bind (io_throw_or_return (json response)) (\<lambda>error.
                  io_bind (io_throw_or_return (apiError error ''Anthropic API request failed'')) io_throw)
             else io_bind (io_throw_or_return (json response)) (\<lambda>data.
                  io_bind (io_throw_or_return (anthropicContent data)) (\<lambda>c.
                  io_bind (io_throw_or_return (anthropicTokens data)) (\<lambda>tokensUsed.
                    io_return (c, tokensUsed))))))"

definition callCustomAPI ::
  "Net \<Rightarrow> string \<Rightarrow> ConversionSettings \<Rightarrow> LLMProvider \<Rightarrow> (Request, jsval \<times> jsval) io" where
  "callCustomAPI net prompt settings prov =
     (let baseUrl' = string_or (customBaseUrl settings) (baseUrl prov);
          model' = string_or (customModel settings) ''custom''
      in if baseUrl' = []
         then io_throw (Error ''Custom base URL is required for local LLM'')
         else
           let request =
                 \<lparr> url = baseUrl' @ ''/chat/completions'',
                   http_method = ''POST'',
                   headers = [(''Content-Type'', ''application/json'')],
                   body = chatBody model' prompt settings \<rparr>
           in io_bind (io_effect request (fetch net request)) (\<lambda>response.
                if \<not> ok response
                then io_bind (io_throw_or_return (response_text response)) (\<lambda>errorText.
                       io_throw (Error (''Local API request failed: '' @ nat_to_string (status response) @ '' '' @
                                        statusText response @ ''. '' @ errorText)))
                else io_bind (io_throw_or_return (json response)) (\<lambda>data.
                     io_bind (io_throw_or_return (choiceContent data)) (\<lambda>c.
                     io_bind (io_throw_or_return (totalTokens data)) (\<lambda>tokensUsed.
                       io_return (c, tokensUsed))))))"

section \<open>llmProviders.ts: convertToMarkdown and processText\<close>

text \<open>The part both entry points share: resolving the provider and calling it.\<close>

definition dispatch ::
  "Net \<Rightarrow> string \<Rightarrow> ConversionSettings \<Rightarrow> (Request, jsval \<times> jsval) io" where
  "dispatch net prompt settings =
     (case find (\<lambda>p. id p = provider settings) LLM_PROVIDERS of
        None \<Rightarrow> io_throw (Error (''Invalid LLM provider: '' @ provider settings))
      | Some prov \<Rightarrow>
          if provider settings = ''openai'' then callOpenAI net prompt settings prov
          else if provider settings = ''anthropic'' then callAnthropic net prompt settings prov
          else if provider settings = ''groq'' then callGroq net prompt settings prov
          else callCustomAPI net prompt settings prov)"

definition convertToMarkdown ::
  "Net \<Rightarrow> string \<Rightarrow> ConversionSettings \<Rightarrow> ConversionExample list \<Rightarrow> (Request, LLMResult) io" where
  "convertToMarkdown net text settings examples =
     (if text = [] \<or> length (trim text) = 0
      then io_return (Failed ''No text content provided for conversion'' 0)
      else
        let startTime = now_at_start net
        in io_catch
             (let prompt = buildPrompt text examples (Some (customPrompt settings))
              in io_bind (dispatch net prompt settings) (\<lambda>response.
                   let processingTime = now_at_end net - startTime
                   in io_return (Succeeded (fst response) (snd response) processingTime)))
             (\<lambda>error. io_return (Failed (message_or ''Unknown error occurred'' error)
                                        (now_at_end net - startTime))))"

definition processText ::
  "Net \<Rightarrow> string \<Rightarrow> ConversionSettings \<Rightarrow> (Request, LLMResult) io" where
  "processText net prompt settings =
     (if prompt = [] \<or> length (trim prompt) = 0
      then io_return (Failed ''No prompt provided for text processing'' 0)
      else
        let startTime = now_at_start net
        in io_catch
             (io_bind (dispatch net prompt settings) (\<lambda>response.
                let processingTime = now_at_end net - startTime
                in io_return (Succeeded (fst response) (snd response) processingTime)))
             (\<lambda>error. io_return (Failed (message_or ''Unknown error occurred'' error)
                                        (now_at_end net - startTime))))"

section \<open>Example inputs\<close>

text \<open>An environment in which every read succeeds, the PDF has one page with three text
  items, and the LLM call reports failure; and one in which the LLM call returns text.\<close>

definition failing_llm_env :: Env where
  "failing_llm_env =
     \<lparr> readAsText = (\<lambda>file. OnLoad ''hello''),
       readAsArrayBuffer = (\<lambda>file. OnLoad (Some [37, 80, 68, 70])),
       extractRawText = (\<lambda>buffer. Inr ''docx text''),
       getDocument = (\<lambda>data. Inr [Inr [Some ''Page one '', None, Some '' text'']]),
       LLMService_processText = (\<lambda>prompt settings. Inr (Failed ''LLM error'' 1000)) \<rparr>"

definition cleaning_llm_env :: Env where
  "cleaning_llm_env =
     failing_llm_env
       \<lparr> LLMService_processText :=
           (\<lambda>prompt settings. Inr (Succeeded (JStr '' cleaned pdf content '') JUndefined 1000)) \<rparr>"

definition pdf_file :: File where
  "pdf_file = \<lparr> name = ''test.pdf'', type = ''application/pdf'', size = 11 \<rparr>"

definition pdf_typed_txt_file :: File where
  "pdf_typed_txt_file = \<lparr> name = ''notes.txt'', type = ''application/pdf'', size = 11 \<rparr>"




definition file_named_pdf :: File where
  "file_named_pdf = \<lparr> name = ''pdf'', type = ''application/unknown'', size = 7 \<rparr>"

definition openai_settings :: ConversionSettings where
  "openai_settings =
     \<lparr> provider = ''openai'', model = ''gpt-4'', apiKey = ''test-key'', temperature = 1 / 10,
       maxTokens = 4000, useExamples = False, selectedExamples = [], customPrompt = [],
       customBaseUrl = None, customModel = None \<rparr>"

definition throwing_llm_env :: Env where
  "throwing_llm_env =
     failing_llm_env \<lparr> LLMService_processText := (\<lambda>prompt settings. Inl (Error ''Network error'')) \<rparr>"

definition blank_llm_env :: Env where
  "blank_llm_env =
     failing_llm_env
       \<lparr> LLMService_processText := (\<lambda>prompt settings. Inr (Succeeded (JStr ''  '') JUndefined 1000)) \<rparr>"

text \<open>A response with status 200 whose body is
  \<open>{"choices": [{"message": {"content": "# X"}}], "usage": {"total_tokens": 150}}\<close>, the same
  without \<open>usage\<close>, and networks that answer every request with one of them or reject.\<close>

definition response_with_usage :: Response where
  "response_with_usage =
     \<lparr> status = 200, statusText = ''OK'',
       json = Inr (JObj [(''choices'', JArr [JObj [(''message'', JObj [(''content'', JStr ''# X'')])]]),
                         (''usage'', JObj [(''total_tokens'', JNum 150)])]),
       response_text = Inr [] \<rparr>"


definition net_with_usage :: Net where
  "net_with_usage =
     \<lparr> fetch = (\<lambda>request. Inr response_with_usage), now_at_start = 1000, now_at_end = 3000 \<rparr>"


definition failing_net :: Net where
  "failing_net =
     \<lparr> fetch = (\<lambda>request. Inl (Error ''Network error'')), now_at_start = 1000, now_at_end = 3000 \<rparr>"

definition custom_prompt_settings :: ConversionSettings where
  "custom_prompt_settings = openai_settings \<lparr> customPrompt := '' Use plain headings '' \<rparr>"

definition local_settings :: ConversionSettings where
  "local_settings =
     \<lparr> provider = ''local'', model = ''custom'', apiKey = [], temperature = 1 / 10,
       maxTokens = 4000, useExamples = False, selectedExamples = [], customPrompt = [],
       customBaseUrl = Some ''http://localhost:11434/v1'', customModel = Some ''llama2'' \<rparr>"

definition local_provider :: LLMProvider where
  "local_provider =
     \<lparr> id = ''local'', provider_name = ''Local/Custom API'', baseUrl = ''http://localhost:11434/v1'',
       requiresApiKey = False, models = [''custom''] \<rparr>"

definition unnamed_provider :: LLMProvider where
  "unnamed_provider =
     \<lparr> id = ''other'', provider_name = ''Other'', baseUrl = [], requiresApiKey = False, models = [] \<rparr>"

definition local_default_settings :: ConversionSettings where
  "local_default_settings = local_settings \<lparr> customBaseUrl := None, customModel := None \<rparr>"

definition unknown_provider_settings :: ConversionSettings where
  "unknown_provider_settings = openai_settings \<lparr> provider := ''nobody'' \<rparr>"

definition missing_key_settings :: ConversionSettings where
  "missing_key_settings = openai_settings \<lparr> apiKey := [] \<rparr>"

section \<open>Evaluation rules\<close>

lemma ilog_numeral [simp]:
  "ilog (numeral k) (numeral b) =
     (if numeral k < (2::nat) \<or> (numeral b :: nat) < numeral k then 0
      else Suc (ilog (numeral k) (numeral b div numeral k)))"
  by (rule ilog.simps)

lemma ilog_below [simp]: "b < k \<Longrightarrow> ilog k b = 0"
  by (simp add: ilog.simps)

lemma ilog_step: "2 \<le> k \<Longrightarrow> k \<le> b \<Longrightarrow> ilog k b = Suc (ilog k (b div k))"
  by (subst ilog.simps) simp

lemma nat_to_string_numeral [simp]:
  "nat_to_string (numeral n) =
     (if (numeral n :: nat) < 10 then [''0123456789'' ! numeral n]
      else nat_to_string (numeral n div 10) @ [''0123456789'' ! (numeral n mod 10)])"
  by (rule nat_to_string.simps)

lemma nat_to_string_small [simp]: "nat_to_string 0 = ''0''" "nat_to_string (Suc 0) = ''1''"
  by (simp_all add: nat_to_string.simps)

lemmas formatFileSize_defs =
  formatFileSize_def toFixed2_def show_hundredths_def sizes_def index_or_undefined_def

lemma endsWith_append [simp]: "endsWith (xs @ t) t"
  by (simp add: endsWith_def)

section \<open>The exact arithmetic of formatFileSize\<close>

text \<open>\<open>ilog k b\<close> is the exponent \<open>n\<close> with \<open>k^n \<le> b < k^(n+1)\<close>, which is the floor of
  the real quotient \<open>ln b / ln k\<close> that the code computes.\<close>

lemma ilog_bounds:
  "2 \<le> k \<Longrightarrow> 0 < b \<Longrightarrow> k ^ ilog k b \<le> b \<and> b < k ^ Suc (ilog k b)"
proof (induction k b rule: ilog.induct)
  case (1 k b)
  show ?case
  proof (cases "b < k")
    case True
    with 1(2,3) show ?thesis by simp
  next
    case False
    then have kb: "k \<le> b" by simp
    have kpos: "0 < k" using 1(2) by simp
    have pos: "0 < b div k" using kb kpos by (simp add: div_greater_zero_iff)
    have ih: "k ^ ilog k (b div k) \<le> b div k \<and> b div k < k ^ Suc (ilog k (b div k))"
      using 1(1)[OF _ 1(2) pos] False 1(2) by simp
    have eq: "ilog k b = Suc (ilog k (b div k))"
      using 1(2) kb by (rule ilog_step)
    have "k * k ^ ilog k (b div k) \<le> k * (b div k)" using ih by simp
    also have "\<dots> \<le> b" by simp
    finally have lo: "k ^ ilog k b \<le> b" by (simp add: eq)
    have "Suc (b div k) \<le> k ^ Suc (ilog k (b div k))" using ih by simp
    then have "k * Suc (b div k) \<le> k * k ^ Suc (ilog k (b div k))" by (rule mult_le_mono2)
    moreover have "b < k * Suc (b div k)" using kpos dividend_less_times_div[of k b] by simp
    ultimately have hi: "b < k ^ Suc (ilog k b)" by (simp add: eq)
    from lo hi show ?thesis by simp
  qed
qed

lemma ilog_unique:
  assumes k: "2 \<le> k" and lo: "k ^ n \<le> b" and hi: "b < k ^ Suc n"
  shows "ilog k b = n"
proof -
  have k1: "1 < k" using k by simp
  have "0 < k ^ n" using k by simp
  then have b: "0 < b" using lo by linarith
  let ?m = "ilog k b"
  from ilog_bounds[OF k b] have m: "k ^ ?m \<le> b" "b < k ^ Suc ?m" by auto
  have "k ^ n < k ^ Suc ?m" using lo m(2) by (rule le_less_trans)
  then have "n < Suc ?m" using k1 power_less_imp_less_exp by blast
  moreover have "k ^ ?m < k ^ Suc n" using m(1) hi by (rule le_less_trans)
  then have "?m < Suc n" using k1 power_less_imp_less_exp by blast
  ultimately show ?thesis by simp
qed

lemma ilog_is_floor_of_log:
  assumes b: "0 < b"
  shows "int (ilog 1024 b) = \<lfloor>ln (real b) / ln 1024\<rfloor>"
proof -
  have bounds: "1024 ^ ilog 1024 b \<le> b \<and> b < 1024 ^ Suc (ilog 1024 b)"
    using ilog_bounds[of 1024 b] b by simp
  have "\<lfloor>log (real (1024::nat)) (real b)\<rfloor> = int (ilog 1024 b)"
    using bounds b by (subst floor_log_nat_eq_powr_iff) simp_all
  then show ?thesis by (simp add: log_def)
qed

text \<open>\<open>toFixed2 b d\<close> is the floor of \<open>100 * b / d + 1 / 2\<close>: the nearest multiple of one
  hundredth, the larger one on a tie.\<close>

lemma toFixed2_is_rounding:
  assumes d: "0 < d"
  shows "int (toFixed2 b d) = \<lfloor>100 * real b / real d + 1 / 2\<rfloor>"
proof -
  have "100 * real b / real d + 1 / 2 = real (2 * 100 * b + d) / real (2 * d)"
    using d by (simp add: field_simps)
  then show ?thesis
    by (simp only: toFixed2_def floor_divide_of_nat_eq)
qed

lemma formatFileSize_10MB: "formatFileSize 10485760 = ''10 MB''"
  by (simp add: formatFileSize_defs)

lemma ilog_KB:
  assumes "1024 \<le> b" "b \<le> 1048575"
  shows "ilog 1024 (nat b) = 1"
proof -
  have "1024 ^ 1 \<le> nat b" using assms by simp
  moreover have "nat b < 1024 ^ Suc 1" using assms by simp
  ultimately show ?thesis by (intro ilog_unique) simp_all
qed

lemma formatFileSize_KB:
  assumes "1024 \<le> b" "b \<le> 1048575"
  shows "formatFileSize b = show_hundredths (toFixed2 (nat b) 1024) @ '' KB''"
proof -
  have i: "ilog 1024 (nat b) = Suc 0" using ilog_KB[OF assms] by simp
  have "b \<noteq> 0" "\<not> b < 0" using assms by auto
  then show ?thesis
    unfolding formatFileSize_def Let_def i by (simp add: sizes_def index_or_undefined_def)
qed

lemma formatFileSize_unit:
  assumes pos: "0 < b" and below: "b < 1024 ^ 4"
  shows "\<exists>i<4. 1024 ^ i \<le> b \<and> b < 1024 ^ (i + 1) \<and>
           formatFileSize b = show_hundredths (toFixed2 (nat b) (1024 ^ i)) @ '' '' @ sizes ! i"
proof -
  define i where "i = ilog 1024 (nat b)"
  have nb: "int (nat b) = b" using pos by simp
  have bnd: "1024 ^ i \<le> nat b \<and> nat b < 1024 ^ Suc i"
    unfolding i_def using pos by (intro ilog_bounds) simp_all
  have "int (1024 ^ i) \<le> int (nat b)" using bnd by (simp only: of_nat_le_iff)
  then have lo: "1024 ^ i \<le> b" using nb by simp
  have "int (nat b) < int (1024 ^ Suc i)" using bnd by (simp only: of_nat_less_iff)
  then have hi: "b < 1024 ^ (i + 1)" using nb by simp
  have "(1024::int) ^ i < 1024 ^ 4" using lo below by (rule le_less_trans)
  moreover have "(1::int) < 1024" by simp
  ultimately have i4: "i < 4" by (rule power_less_imp_less_exp[rotated])
  have nz: "b \<noteq> 0" "\<not> b < 0" using pos by auto
  have "formatFileSize b = show_hundredths (toFixed2 (nat b) (1024 ^ i)) @ '' '' @ sizes ! i"
    unfolding formatFileSize_def Let_def i_def[symmetric] using nz i4
    by (simp add: index_or_undefined_def sizes_def)
  with i4 lo hi show ?thesis by blast
qed

section \<open>validateFile\<close>

lemmas io_defs =
  io_return_def io_throw_def io_throw_or_return_def io_effect_def io_bind_def io_catch_def

lemmas string_defs =
  toLowerCase_def toLowerChar_def endsWith_def fileExtension_def pop_def

lemma validateFile_default:
  "validateFile file DEFAULT_OPTIONS =
     (if 10485760 < size file then Inl (Error ''File size must be less than 10 MB'')
      else if type file \<notin> {''text/plain'',
                ''application/vnd.openxmlformats-officedocument.wordprocessingml.document'',
                ''application/pdf''}
              \<and> fileExtension file \<notin> {''.txt'', ''.docx'', ''.pdf''}
      then Inl (Error ''Please upload a TXT, DOCX, or PDF file'')
      else Inr ())"
proof -
  have m: "(10::int) * 1024 * 1024 = 10485760" by simp
  show ?thesis
    unfolding validateFile_def DEFAULT_OPTIONS_def m
    by (simp add: formatFileSize_10MB opt_includes_def array_includes_def Let_def)
qed




section \<open>Names without a dot\<close>

lemma split_no_separator: "sep \<notin> set s \<Longrightarrow> split sep s = [s]"
  by (induction s) auto

lemma fileExtension_dotless:
  "CHR ''.'' \<notin> set (name file) \<Longrightarrow> fileExtension file = ''.'' @ toLowerCase (name file)"
  by (simp add: fileExtension_def split_no_separator pop_def)

lemma extractText_valid:
  "validateFile file DEFAULT_OPTIONS = Inr () \<Longrightarrow>
   extractText env file settings =
     io_catch
       (if type file = ''text/plain'' \<or> endsWith (toLowerCase (name file)) ''.txt''
        then extractTextFromTxt env file
        else if type file = ''application/vnd.openxmlformats-officedocument.wordprocessingml.document''
                \<or> endsWith (toLowerCase (name file)) ''.docx''
        then extractTextFromDocx env file
        else if type file = ''application/pdf'' \<or> endsWith (toLowerCase (name file)) ''.pdf''
        then (case settings of
                None \<Rightarrow> io_throw (Error ''PDF processing requires LLM settings for text cleaning'')
              | Some s \<Rightarrow>
                  io_bind (extractTextFromPdf env file) (\<lambda>rawText. cleanTextWithLLM env rawText s))
        else io_throw (Error (''Unsupported file type: '' @ type file)))
       (\<lambda>error. io_throw (Error (''Failed to extract text: '' @ message_or ''Unknown error'' error)))"
  by (simp add: extractText_def io_bind_def io_throw_or_return_def Let_def split: prod.splits)

text \<open>
  C9. For a file whose name contains no dot the validator's extension is a dot followed
  by the whole lower-cased name. So a file named exactly \<open>pdf\<close>, \<open>txt\<close> or \<open>docx\<close>, of a
  size within the ceiling, passes validation whatever its declared type; and when that
  type is none of the three supported ones, \<open>extractText\<close> reaches none of its three
  format branches (each asks for the type or for a name ending in \<open>.txt\<close>, \<open>.docx\<close>,
  \<open>.pdf\<close>) and rejects, before any read, with
  "Failed to extract text: Unsupported file type: " followed by the type.
\<close>

theorem dotless_name_passes_validation_then_unsupported:
  "(CHR ''.'' \<notin> set (name file) \<longrightarrow> fileExtension file = ''.'' @ toLowerCase (name file))
   \<and> (name file \<in> {''pdf'', ''txt'', ''docx''} \<and> size file \<le> 10485760
      \<longrightarrow> validateFile file DEFAULT_OPTIONS = Inr ()
          \<and> (type file \<notin> {''text/plain'',
                ''application/vnd.openxmlformats-officedocument.wordprocessingml.document'',
                ''application/pdf''}
             \<longrightarrow> extractText env file settings =
                   ([], Inl (Error (''Failed to extract text: Unsupported file type: '' @ type file)))))"
proof (intro conjI impI)
  assume "CHR ''.'' \<notin> set (name file)"
  then show "fileExtension file = ''.'' @ toLowerCase (name file)"
    by (rule fileExtension_dotless)
next
  assume h: "name file \<in> {''pdf'', ''txt'', ''docx''} \<and> size file \<le> 10485760"
  then have ext: "fileExtension file \<in> {''.txt'', ''.docx'', ''.pdf''}"
    by (auto simp: string_defs)
  with h show valid: "validateFile file DEFAULT_OPTIONS = Inr ()"
    unfolding validateFile_default by auto
  assume t: "type file \<notin> {''text/plain'',
                ''application/vnd.openxmlformats-officedocument.wordprocessingml.document'',
                ''application/pdf''}"
  have no_suffix: "\<not> endsWith (toLowerCase (name file)) ''.txt''"
       "\<not> endsWith (toLowerCase (name file)) ''.docx''"
       "\<not> endsWith (toLowerCase (name file)) ''.pdf''"
    using h by (auto simp: string_defs)
  show "extractText env file settings =
          ([], Inl (Error (''Failed to extract text: Unsupported file type: '' @ type file)))"
    unfolding extractText_valid[OF valid] using t no_suffix
    by (simp add: io_catch_def io_throw_def)
qed

theorem dotless_name_passes_validation_then_unsupported_witness:
  "fileExtension file_named_pdf = ''.pdf''
   \<and> validateFile file_named_pdf DEFAULT_OPTIONS = Inr ()
   \<and> extractText failing_llm_env file_named_pdf None =
       ([], Inl (Error ''Failed to extract text: Unsupported file type: application/unknown''))"
proof -
  have dotless: "CHR ''.'' \<notin> set (name file_named_pdf)"
    by (simp add: file_named_pdf_def)
  have small: "name file_named_pdf \<in> {''pdf'', ''txt'', ''docx''} \<and> size file_named_pdf \<le> 10485760"
    by (simp add: file_named_pdf_def)
  have unsupported: "type file_named_pdf \<notin> {''text/plain'',
                ''application/vnd.openxmlformats-officedocument.wordprocessingml.document'',
                ''application/pdf''}"
    by (simp add: file_named_pdf_def)
  note t = dotless_name_passes_validation_then_unsupported[of file_named_pdf failing_llm_env None]
  have a: "fileExtension file_named_pdf = ''.'' @ toLowerCase (name file_named_pdf)"
    using t[THEN conjunct1] dotless by (rule mp)
  have b: "validateFile file_named_pdf DEFAULT_OPTIONS = Inr ()"
    using t[THEN conjunct2] small by blast
  have c: "extractText failing_llm_env file_named_pdf None =
       ([], Inl (Error (''Failed to extract text: Unsupported file type: '' @ type file_named_pdf)))"
    using t[THEN conjunct2] small unsupported by blast
  have n: "toLowerCase (name file_named_pdf) = ''pdf''" "type file_named_pdf = ''application/unknown''"
    by (simp_all add: file_named_pdf_def string_defs)
  from a b c show ?thesis unfolding n by simp
qed

section \<open>extractText on the PDF branch\<close>

lemmas example_envs =
  failing_llm_env_def cleaning_llm_env_def throwing_llm_env_def blank_llm_env_def

lemma validateFile_pdf_file: "validateFile pdf_file DEFAULT_OPTIONS = Inr ()"
  unfolding validateFile_default by (simp add: pdf_file_def)

lemma validateFile_pdf_typed_txt_file: "validateFile pdf_typed_txt_file DEFAULT_OPTIONS = Inr ()"
  unfolding validateFile_default by (simp add: pdf_typed_txt_file_def)

text \<open>
  C1, as stated, fails twice. A file of type \<open>application/pdf\<close> named \<open>test.pdf\<close> passes
  validation and, without settings, is rejected with a message that is not the bare
  "PDF processing requires LLM settings for text cleaning": the outer handler of
  \<open>extractText\<close> has put "Failed to extract text: " in front of it. And a file of type
  \<open>application/pdf\<close> named \<open>notes.txt\<close> is not rejected at all: the name sends it to the
  plain-text branch, which comes first, and \<open>extractText\<close> resolves with the text read.
\<close>

theorem pdf_without_settings_counterexample:
  "validateFile pdf_file DEFAULT_OPTIONS = Inr ()
   \<and> snd (extractText failing_llm_env pdf_file None)
       \<noteq> Inl (Error ''PDF processing requires LLM settings for text cleaning'')
   \<and> validateFile pdf_typed_txt_file DEFAULT_OPTIONS = Inr ()
   \<and> extractText failing_llm_env pdf_typed_txt_file None = ([ReadAsText], Inr ''hello'')"
proof (intro conjI)
  show "validateFile pdf_file DEFAULT_OPTIONS = Inr ()"
    by (rule validateFile_pdf_file)
  show "snd (extractText failing_llm_env pdf_file None)
          \<noteq> Inl (Error ''PDF processing requires LLM settings for text cleaning'')"
    unfolding extractText_valid[OF validateFile_pdf_file]
    by (simp add: pdf_file_def io_catch_def io_throw_def string_defs)
  show "validateFile pdf_typed_txt_file DEFAULT_OPTIONS = Inr ()"
    by (rule validateFile_pdf_typed_txt_file)
  show "extractText failing_llm_env pdf_typed_txt_file None = ([ReadAsText], Inr ''hello'')"
    unfolding extractText_valid[OF validateFile_pdf_typed_txt_file]
    by (simp add: pdf_typed_txt_file_def io_catch_def io_effect_def string_defs
                  extractTextFromTxt_def failing_llm_env_def)
qed

text \<open>
  C1, amended. For every file that passes validation and that \<open>extractText\<close> sends to its
  PDF branch (the declared type is \<open>application/pdf\<close> or the lower-cased name ends in
  \<open>.pdf\<close>, and neither the plain-text nor the word-processor branch, which come first,
  takes it), \<open>extractText\<close> without settings rejects with
  "Failed to extract text: PDF processing requires LLM settings for text cleaning",
  before any read and so regardless of the file's content.
\<close>

theorem pdf_without_settings:
  assumes "validateFile file DEFAULT_OPTIONS = Inr ()"
    and "type file = ''application/pdf'' \<or> endsWith (toLowerCase (name file)) ''.pdf''"
    and "type file \<noteq> ''text/plain''"
    and "\<not> endsWith (toLowerCase (name file)) ''.txt''"
    and "type file \<noteq> ''application/vnd.openxmlformats-officedocument.wordprocessingml.document''"
    and "\<not> endsWith (toLowerCase (name file)) ''.docx''"
  shows "extractText env file None =
           ([], Inl (Error ''Failed to extract text: PDF processing requires LLM settings for text cleaning''))"
  unfolding extractText_valid[OF assms(1)] using assms(2-6)
  by (simp add: io_catch_def io_throw_def)

theorem pdf_without_settings_witness:
  "extractText failing_llm_env pdf_file None =
     ([], Inl (Error ''Failed to extract text: PDF processing requires LLM settings for text cleaning''))"
proof (rule pdf_without_settings)
  show "validateFile pdf_file DEFAULT_OPTIONS = Inr ()"
    by (rule validateFile_pdf_file)
  show "type pdf_file = ''application/pdf'' \<or> endsWith (toLowerCase (name pdf_file)) ''.pdf''"
    by (simp add: pdf_file_def)
  show "type pdf_file \<noteq> ''text/plain''"
    by (simp add: pdf_file_def)
  show "\<not> endsWith (toLowerCase (name pdf_file)) ''.txt''"
    by (simp add: pdf_file_def string_defs)
  show "type pdf_file \<noteq> ''application/vnd.openxmlformats-officedocument.wordprocessingml.document''"
    by (simp add: pdf_file_def)
  show "\<not> endsWith (toLowerCase (name pdf_file)) ''.docx''"
    by (simp add: pdf_file_def string_defs)
qed

section \<open>Trimming\<close>

lemma trim_fixed:
  assumes "t \<noteq> []" "\<not> isWhiteSpace (hd t)" "\<not> isWhiteSpace (last t)"
  shows "trim t = t"
proof -
  have a: "dropWhile isWhiteSpace t = t"
    using assms(1,2) by (cases t) simp_all
  have "rev t \<noteq> []" "\<not> isWhiteSpace (hd (rev t))"
    using assms(1,3) by (simp_all add: hd_rev)
  then have b: "dropWhile isWhiteSpace (rev t) = rev t"
    by (cases "rev t") simp_all
  show ?thesis by (simp add: trim_def a b)
qed

lemma trim_ends:
  assumes "trim s \<noteq> []"
  shows "\<not> isWhiteSpace (hd (trim s)) \<and> \<not> isWhiteSpace (last (trim s))"
proof -
  define u where "u = dropWhile isWhiteSpace s"
  define v where "v = dropWhile isWhiteSpace (rev u)"
  have t: "trim s = rev v" by (simp add: trim_def u_def v_def)
  have v: "v \<noteq> []" using assms t by simp
  then have ru: "rev u \<noteq> []" by (auto simp: v_def)
  then have u: "u \<noteq> []" by simp
  have "\<not> isWhiteSpace (hd v)" using v unfolding v_def by (rule hd_dropWhile)
  then have last_ok: "\<not> isWhiteSpace (last (rev v))" using v by (simp add: last_rev)
  have "v = drop (length (takeWhile isWhiteSpace (rev u))) (rev u)"
    by (simp add: v_def dropWhile_eq_drop)
  then have "last v = last (rev u)"
    using v by (metis drop_eq_Nil last_drop not_le)
  also have "\<dots> = hd u" using u by (simp add: last_rev)
  finally have "last v = hd u" .
  moreover have "\<not> isWhiteSpace (hd u)" using u unfolding u_def by (rule hd_dropWhile)
  ultimately have "\<not> isWhiteSpace (hd (rev v))" using v by (simp add: hd_rev)
  with last_ok show ?thesis by (simp add: t)
qed

lemma trim_idem: "trim (trim s) = trim s"
proof (cases "trim s = []")
  case True
  have "trim [] = []" by (simp add: trim_def)
  then show ?thesis unfolding True .
next
  case False
  with trim_ends[OF False] show ?thesis by (intro trim_fixed) simp_all
qed

section \<open>The cleaning step\<close>

lemma extractTextFromPdf_not_blank:
  assumes "snd (extractTextFromPdf env file) = Inr rawText"
  shows "rawText \<noteq> [] \<and> trim rawText \<noteq> []"
proof -
  from assms obtain fullText where "rawText = trim fullText" "trim fullText \<noteq> []"
    by (auto simp: extractTextFromPdf_def io_defs Let_def
             split: read_result.splits option.splits sum.splits prod.splits if_splits)
  then show ?thesis by (simp add: trim_idem)
qed

lemma cleanTextWithLLM_result:
  assumes "rawText \<noteq> []" "trim rawText \<noteq> []"
  shows "snd (cleanTextWithLLM env rawText settings) =
           Inr (case LLMService_processText env (cleaningPrompt rawText) settings of
                  Inl e \<Rightarrow> rawText
                | Inr (Failed m ms) \<Rightarrow> rawText
                | Inr (Succeeded (JStr c) t ms) \<Rightarrow> if trim c = [] then rawText else trim c
                | Inr (Succeeded v t ms) \<Rightarrow> rawText)"
  using assms
  by (simp add: cleanTextWithLLM_def io_defs split: sum.splits LLMResult.splits jsval.splits)

text \<open>
  C2. Take a file that passes validation and that \<open>extractText\<close> sends to its PDF branch,
  settings, and a raw text extraction that succeeds with \<open>rawText\<close> (which is then not
  blank). Whatever the cleaning call \<open>LLMService.processText\<close> does, \<open>extractText\<close>
  resolves: with \<open>rawText\<close> unchanged when the call rejects (throws), when it reports
  failure, and when it succeeds with content that is blank after trimming (or is no
  string); with the trimmed content when it succeeds with content that is not blank.
\<close>

theorem pdf_cleaning_fallback:
  assumes "validateFile file DEFAULT_OPTIONS = Inr ()"
    and "type file = ''application/pdf'' \<or> endsWith (toLowerCase (name file)) ''.pdf''"
    and "type file \<noteq> ''text/plain''"
    and "\<not> endsWith (toLowerCase (name file)) ''.txt''"
    and "type file \<noteq> ''application/vnd.openxmlformats-officedocument.wordprocessingml.document''"
    and "\<not> endsWith (toLowerCase (name file)) ''.docx''"
    and "snd (extractTextFromPdf env file) = Inr rawText"
    and "LLMService_processText env (cleaningPrompt rawText) settings = outcome"
  shows "snd (extractText env file (Some settings)) =
           Inr (case outcome of
                  Inl thrown \<Rightarrow> rawText
                | Inr (Failed m ms) \<Rightarrow> rawText
                | Inr (Succeeded (JStr c) t ms) \<Rightarrow> if trim c = [] then rawText else trim c
                | Inr (Succeeded v t ms) \<Rightarrow> rawText)"
proof -
  have nb: "rawText \<noteq> []" "trim rawText \<noteq> []"
    using extractTextFromPdf_not_blank[OF assms(7)] by simp_all
  obtain t1 where pdf: "extractTextFromPdf env file = (t1, Inr rawText)"
    using assms(7) by (cases "extractTextFromPdf env file") simp
  obtain t2 r where clean: "cleanTextWithLLM env rawText settings = (t2, r)"
    by (cases "cleanTextWithLLM env rawText settings")
  have r: "r = Inr (case outcome of
                  Inl thrown \<Rightarrow> rawText
                | Inr (Failed m ms) \<Rightarrow> rawText
                | Inr (Succeeded (JStr c) t ms) \<Rightarrow> if trim c = [] then rawText else trim c
                | Inr (Succeeded v t ms) \<Rightarrow> rawText)"
    using cleanTextWithLLM_result[OF nb, of env settings] clean assms(8) by simp
  have "extractText env file (Some settings) = (t1 @ t2, r)"
    unfolding extractText_valid[OF assms(1)] using assms(2-6)
    by (simp add: io_catch_def io_bind_def pdf clean r)
  then show ?thesis by (simp add: r)
qed

lemma extractTextFromPdf_example:
  "LLMService_processText env = f \<Longrightarrow>
   extractTextFromPdf (failing_llm_env \<lparr> LLMService_processText := f \<rparr>) pdf_file =
     ([ReadAsArrayBuffer, GetDocument, GetPage 1], Inr ''Page one text'')"
  by (simp add: extractTextFromPdf_def failing_llm_env_def io_defs pageText_def trim_def
                isWhiteSpace_def Let_def)

theorem pdf_cleaning_fallback_witness:
  "snd (extractText failing_llm_env pdf_file (Some openai_settings)) = Inr ''Page one text''
   \<and> snd (extractText throwing_llm_env pdf_file (Some openai_settings)) = Inr ''Page one text''
   \<and> snd (extractText blank_llm_env pdf_file (Some openai_settings)) = Inr ''Page one text''
   \<and> snd (extractText cleaning_llm_env pdf_file (Some openai_settings)) = Inr ''cleaned pdf content''"
proof -
  have v: "validateFile pdf_file DEFAULT_OPTIONS = Inr ()"
    by (rule validateFile_pdf_file)
  have p: "type pdf_file = ''application/pdf'' \<or> endsWith (toLowerCase (name pdf_file)) ''.pdf''"
    by (simp add: pdf_file_def)
  have n: "type pdf_file \<noteq> ''text/plain''"
      "\<not> endsWith (toLowerCase (name pdf_file)) ''.txt''"
      "type pdf_file \<noteq> ''application/vnd.openxmlformats-officedocument.wordprocessingml.document''"
      "\<not> endsWith (toLowerCase (name pdf_file)) ''.docx''"
    by (simp_all add: pdf_file_def string_defs)
  have raw: "snd (extractTextFromPdf env pdf_file) = Inr ''Page one text''"
    if "env \<in> {failing_llm_env, throwing_llm_env, blank_llm_env, cleaning_llm_env}" for env
    using that extractTextFromPdf_example[OF refl, of failing_llm_env]
      extractTextFromPdf_example[OF refl, of "failing_llm_env \<lparr> LLMService_processText := f \<rparr>" for f]
    by (auto simp: throwing_llm_env_def blank_llm_env_def cleaning_llm_env_def)
  note t = pdf_cleaning_fallback[OF v p n raw refl, of _ openai_settings]
  have a: "snd (extractText failing_llm_env pdf_file (Some openai_settings)) = Inr ''Page one text''"
    using t[of failing_llm_env] by (simp add: failing_llm_env_def)
  have b: "snd (extractText throwing_llm_env pdf_file (Some openai_settings)) = Inr ''Page one text''"
    using t[of throwing_llm_env] by (simp add: throwing_llm_env_def)
  have c: "snd (extractText blank_llm_env pdf_file (Some openai_settings)) = Inr ''Page one text''"
    using t[of blank_llm_env] by (simp add: blank_llm_env_def trim_def isWhiteSpace_def)
  have d: "snd (extractText cleaning_llm_env pdf_file (Some openai_settings)) = Inr ''cleaned pdf content''"
    using t[of cleaning_llm_env] by (simp add: cleaning_llm_env_def trim_def isWhiteSpace_def)
  from a b c d show ?thesis by simp
qed

section \<open>buildPrompt\<close>

lemma buildPrompt_custom:
  "trim c \<noteq> [] \<Longrightarrow>
   buildPrompt text examples (Some c) =
     trim c @ ''\<newline>\<newline>Now convert this legal pleading:\<newline>\<newline>'' @ text @
     ''\<newline>\<newline>Provide only the clean markdown conversion:''"
proof -
  assume t: "trim c \<noteq> []"
  then have "c \<noteq> []" by (auto simp: trim_def)
  with t show ?thesis by (simp add: buildPrompt_def hasCustomPrompt_def)
qed

text \<open>A text without a line feed that occurs in two texts joined by a line feed occurs
  in one of them.\<close>

lemma sublist_across_newline:
  assumes "CHR ''\<newline>'' \<notin> set m" "sublist m (a @ CHR ''\<newline>'' # b)"
  shows "sublist m a \<or> sublist m b"
proof -
  from assms(2) obtain ps ss where eq: "a @ CHR ''\<newline>'' # b = ps @ m @ ss"
    by (auto simp: sublist_def)
  then consider (left) us where "a = ps @ us" "us @ CHR ''\<newline>'' # b = m @ ss"
    | (right) us where "a @ us = ps" "CHR ''\<newline>'' # b = us @ m @ ss"
    by (auto simp: append_eq_append_conv2)
  then show ?thesis
  proof cases
    case left
    from left(2) consider (in_a) vs where "us = m @ vs"
      | (cross) vs where "us @ vs = m" "CHR ''\<newline>'' # b = vs @ ss" "vs \<noteq> []"
      by (auto simp: append_eq_append_conv2) metis
    then show ?thesis
    proof cases
      case in_a
      with left(1) show ?thesis by (auto simp: sublist_def)
    next
      case cross
      then have "CHR ''\<newline>'' \<in> set m" by (cases vs) auto
      with assms(1) show ?thesis by simp
    qed
  next
    case right
    show ?thesis
    proof (cases us)
      case Nil
      with right(2) have "m = [] \<or> hd m = CHR ''\<newline>''" by (cases m) auto
      with assms(1) have "m = []" by (cases m) auto
      then show ?thesis by simp
    next
      case (Cons u us')
      with right(2) have "b = us' @ m @ ss" by simp
      then show ?thesis by (auto simp: sublist_def)
    qed
  qed
qed

lemma template_line_head:
  assumes "line \<in> set defaultTemplateLines" "line \<noteq> []"
  shows "hd line \<in> set ''YC12345678F-''"
  using assms unfolding defaultTemplateLines_def set_simps insert_iff empty_iff
  by (elim disjE) simp_all

lemma template_line_no_newline:
  assumes "line \<in> set defaultTemplateLines"
  shows "CHR ''\<newline>'' \<notin> set line"
  using assms unfolding defaultTemplateLines_def set_simps insert_iff empty_iff
  by (elim disjE) simp_all

lemma sublist_hd_in_set: "sublist m t \<Longrightarrow> m \<noteq> [] \<Longrightarrow> hd m \<in> set t"
  using set_mono_sublist[of m t] by (cases m) auto

lemma template_line_not_in_frame:
  assumes "line \<in> set defaultTemplateLines" "line \<noteq> []"
  shows "\<not> sublist line ''Now convert this legal pleading:''"
    and "\<not> sublist line ''Provide only the clean markdown conversion:''"
proof -
  have "hd line \<in> set ''YC12345678F-''"
    using assms by (rule template_line_head)
  then have "hd line \<notin> set ''Now convert this legal pleading:''
             \<and> hd line \<notin> set ''Provide only the clean markdown conversion:''"
    unfolding set_simps insert_iff empty_iff by (elim disjE) simp_all
  then show "\<not> sublist line ''Now convert this legal pleading:''"
    and "\<not> sublist line ''Provide only the clean markdown conversion:''"
    using sublist_hd_in_set[OF _ assms(2)] by blast+
qed

lemma sublist_custom_prompt:
  assumes nl: "CHR ''\<newline>'' \<notin> set m" and ne: "m \<noteq> []"
    and sub: "sublist m (a @ ''\<newline>\<newline>Now convert this legal pleading:\<newline>\<newline>'' @ x @
                         ''\<newline>\<newline>Provide only the clean markdown conversion:'')"
  shows "sublist m a \<or> sublist m ''Now convert this legal pleading:'' \<or> sublist m x
         \<or> sublist m ''Provide only the clean markdown conversion:''"
proof -
  let ?N = "CHR ''\<newline>''"
  let ?r5 = "[] @ ?N # ''Provide only the clean markdown conversion:''"
  let ?r4 = "x @ ?N # ?r5"
  let ?r3 = "[] @ ?N # ?r4"
  let ?r2 = "''Now convert this legal pleading:'' @ ?N # ?r3"
  let ?r1 = "[] @ ?N # ?r2"
  have eq: "a @ ''\<newline>\<newline>Now convert this legal pleading:\<newline>\<newline>'' @ x @
              ''\<newline>\<newline>Provide only the clean markdown conversion:'' = a @ ?N # ?r1"
    by simp
  have empty: "\<not> sublist m []" using ne by simp
  from sub have "sublist m (a @ ?N # ?r1)" unfolding eq .
  then have "sublist m a \<or> sublist m ?r1" by (rule sublist_across_newline[OF nl])
  moreover have "sublist m ?r1 \<Longrightarrow> sublist m ?r2"
    using sublist_across_newline[OF nl, of "[]" ?r2] empty by blast
  moreover have "sublist m ?r2 \<Longrightarrow> sublist m ''Now convert this legal pleading:'' \<or> sublist m ?r3"
    by (rule sublist_across_newline[OF nl])
  moreover have "sublist m ?r3 \<Longrightarrow> sublist m ?r4"
    using sublist_across_newline[OF nl, of "[]" ?r4] empty by blast
  moreover have "sublist m ?r4 \<Longrightarrow> sublist m x \<or> sublist m ?r5"
    by (rule sublist_across_newline[OF nl])
  moreover have "sublist m ?r5 \<Longrightarrow> sublist m ''Provide only the clean markdown conversion:''"
    using sublist_across_newline[OF nl, of "[]" "''Provide only the clean markdown conversion:''"] empty
    by blast
  ultimately show ?thesis by blast
qed

section \<open>Effects and results of composed calls\<close>

lemma fst_io_simps [simp]:
  "fst (io_return x) = []"
  "fst (io_throw e) = []"
  "fst (io_throw_or_return r) = []"
  "fst (io_effect ev r) = [ev]"
  "fst (io_bind m f) = fst m @ (case snd m of Inl e \<Rightarrow> [] | Inr x \<Rightarrow> fst (f x))"
  "fst (io_catch m h) = fst m @ (case snd m of Inl e \<Rightarrow> fst (h e) | Inr x \<Rightarrow> [])"
  by (auto simp: io_defs split: prod.splits sum.splits)

lemma snd_io_simps [simp]:
  "snd (io_return x) = Inr x"
  "snd (io_throw e) = Inl e"
  "snd (io_throw_or_return r) = r"
  "snd (io_effect ev r) = r"
  "snd (io_bind m f) = (case snd m of Inl e \<Rightarrow> Inl e | Inr x \<Rightarrow> snd (f x))"
  "snd (io_catch m h) = (case snd m of Inl e \<Rightarrow> snd (h e) | Inr x \<Rightarrow> Inr x)"
  by (auto simp: io_defs split: prod.splits sum.splits)

section \<open>The requests of the provider calls\<close>

lemma callBearer_requests:
  "fst (callBearer who net prompt settings prov) =
     (if apiKey settings = [] then []
      else [\<lparr> url = baseUrl prov @ ''/chat/completions'',
              http_method = ''POST'',
              headers = [(''Content-Type'', ''application/json''),
                         (''Authorization'', ''Bearer '' @ apiKey settings)],
              body = chatBody (model settings) prompt settings \<rparr>])"
  by (simp add: callBearer_def Let_def split: sum.splits)

lemma callAnthropic_requests:
  "fst (callAnthropic net prompt settings prov) =
     (if apiKey settings = [] then []
      else [\<lparr> url = baseUrl prov @ ''/messages'',
              http_method = ''POST'',
              headers = [(''Content-Type'', ''application/json''),
                         (''x-api-key'', apiKey settings),
                         (''anthropic-version'', ''2023-06-01'')],
              body = chatBody (model settings) prompt settings \<rparr>])"
  by (simp add: callAnthropic_def Let_def split: sum.splits)

lemma callCustomAPI_requests:
  "fst (callCustomAPI net prompt settings prov) =
     (if string_or (customBaseUrl settings) (baseUrl prov) = [] then []
      else [\<lparr> url = string_or (customBaseUrl settings) (baseUrl prov) @ ''/chat/completions'',
              http_method = ''POST'',
              headers = [(''Content-Type'', ''application/json'')],
              body = chatBody (string_or (customModel settings) ''custom'') prompt settings \<rparr>])"
  by (simp add: callCustomAPI_def Let_def split: sum.splits)

lemma dispatch_messages:
  assumes "req \<in> set (fst (dispatch net prompt settings))"
  shows "body_messages (body req) = [\<lparr> role = ''user'', content = prompt \<rparr>]"
  using assms
  by (auto simp: dispatch_def callOpenAI_def callGroq_def callBearer_requests callAnthropic_requests
                 callCustomAPI_requests chatBody_def
           split: option.splits if_splits)

lemma convertToMarkdown_requests:
  "fst (convertToMarkdown net text settings examples) =
     (if text = [] \<or> trim text = [] then []
      else fst (dispatch net (buildPrompt text examples (Some (customPrompt settings))) settings))"
  by (simp add: convertToMarkdown_def Let_def split: sum.splits)

lemma processText_requests:
  "fst (processText net prompt settings) =
     (if prompt = [] \<or> trim prompt = [] then [] else fst (dispatch net prompt settings))"
  by (simp add: processText_def Let_def split: sum.splits)

lemma convertToMarkdown_result:
  "snd (convertToMarkdown net text settings examples) =
     Inr (if text = [] \<or> trim text = [] then Failed ''No text content provided for conversion'' 0
          else case snd (dispatch net (buildPrompt text examples (Some (customPrompt settings))) settings) of
                 Inl error \<Rightarrow> Failed (message_or ''Unknown error occurred'' error) (now_at_end net - now_at_start net)
               | Inr response \<Rightarrow> Succeeded (fst response) (snd response) (now_at_end net - now_at_start net))"
  by (simp add: convertToMarkdown_def Let_def split: sum.splits)

lemma processText_result:
  "snd (processText net prompt settings) =
     Inr (if prompt = [] \<or> trim prompt = [] then Failed ''No prompt provided for text processing'' 0
          else case snd (dispatch net prompt settings) of
                 Inl error \<Rightarrow> Failed (message_or ''Unknown error occurred'' error) (now_at_end net - now_at_start net)
               | Inr response \<Rightarrow> Succeeded (fst response) (snd response) (now_at_end net - now_at_start net))"
  by (simp add: processText_def Let_def split: sum.splits)

section \<open>The custom instruction\<close>

text \<open>
  C6. When the custom instruction is not blank, the conversion prompt is exactly the
  trimmed instruction, the separator "Now convert this legal pleading:" between blank
  lines, the document text, and the closing "Provide only the clean markdown conversion:"
  after a blank line, for every text and every list of examples; it is the content of the
  one message of every request \<open>convertToMarkdown\<close> issues. The builder adds nothing of the
  default template: a line of the template occurs in the prompt only if it already
  occurs in the trimmed instruction or in the document text.
\<close>

theorem custom_prompt_replaces_template:
  assumes "trim c \<noteq> []"
  shows "buildPrompt text examples (Some c) =
           trim c @ ''\<newline>\<newline>Now convert this legal pleading:\<newline>\<newline>'' @ text @
           ''\<newline>\<newline>Provide only the clean markdown conversion:''
         \<and> (\<forall>line \<in> set defaultTemplateLines.
               line \<noteq> [] \<and> \<not> sublist line (trim c) \<and> \<not> sublist line text
               \<longrightarrow> \<not> sublist line (buildPrompt text examples (Some c)))
         \<and> (customPrompt settings = c
            \<longrightarrow> (\<forall>req \<in> set (fst (convertToMarkdown net text settings examples)).
                   body_messages (body req) =
                     [\<lparr> role = ''user'', content = buildPrompt text examples (Some c) \<rparr>]))"
proof (intro conjI ballI impI)
  show eq: "buildPrompt text examples (Some c) =
           trim c @ ''\<newline>\<newline>Now convert this legal pleading:\<newline>\<newline>'' @ text @
           ''\<newline>\<newline>Provide only the clean markdown conversion:''"
    using assms by (rule buildPrompt_custom)
  {
    fix line
    assume line: "line \<in> set defaultTemplateLines"
      and h: "line \<noteq> [] \<and> \<not> sublist line (trim c) \<and> \<not> sublist line text"
    show "\<not> sublist line (buildPrompt text examples (Some c))"
    proof
      assume "sublist line (buildPrompt text examples (Some c))"
      then have "sublist line (trim c) \<or> sublist line ''Now convert this legal pleading:''
                 \<or> sublist line text \<or> sublist line ''Provide only the clean markdown conversion:''"
        unfolding eq using template_line_no_newline[OF line] h
        by (intro sublist_custom_prompt) simp_all
      with h template_line_not_in_frame[OF line] show False by blast
    qed
  }
  {
    fix req
    assume "customPrompt settings = c"
      and "req \<in> set (fst (convertToMarkdown net text settings examples))"
    then show "body_messages (body req) =
                 [\<lparr> role = ''user'', content = buildPrompt text examples (Some c) \<rparr>]"
      by (auto simp: convertToMarkdown_requests split: if_splits intro: dispatch_messages)
  }
qed

theorem custom_prompt_replaces_template_witness:
  "buildPrompt ''test text'' [] (Some '' Use plain headings '') =
     ''Use plain headings\<newline>\<newline>Now convert this legal pleading:\<newline>\<newline>test text\<newline>\<newline>Provide only the clean markdown conversion:''
   \<and> \<not> sublist ''CRITICAL REQUIREMENTS:'' (buildPrompt ''test text'' [] (Some '' Use plain headings ''))
   \<and> body_messages (body (hd (fst (convertToMarkdown net_with_usage ''test text'' custom_prompt_settings [])))) =
       [\<lparr> role = ''user'', content = buildPrompt ''test text'' [] (Some '' Use plain headings '') \<rparr>]"
proof -
  have tr: "trim '' Use plain headings '' = ''Use plain headings''"
    by (simp add: trim_def isWhiteSpace_def)
  then have ne: "trim '' Use plain headings '' \<noteq> []" by simp
  note t = custom_prompt_replaces_template[OF ne, of "''test text''" "[]" custom_prompt_settings net_with_usage]
  have a: "buildPrompt ''test text'' [] (Some '' Use plain headings '') =
     ''Use plain headings\<newline>\<newline>Now convert this legal pleading:\<newline>\<newline>test text\<newline>\<newline>Provide only the clean markdown conversion:''"
    using t[THEN conjunct1] unfolding tr by simp
  have line: "''CRITICAL REQUIREMENTS:'' \<in> set defaultTemplateLines"
    by (simp add: defaultTemplateLines_def)
  have "\<not> sublist ''CRITICAL REQUIREMENTS:'' ''Use plain headings''"
       "\<not> sublist ''CRITICAL REQUIREMENTS:'' ''test text''"
    using sublist_hd_in_set[of "''CRITICAL REQUIREMENTS:''"] by fastforce+
  then have b: "\<not> sublist ''CRITICAL REQUIREMENTS:'' (buildPrompt ''test text'' [] (Some '' Use plain headings ''))"
    using t[THEN conjunct2, THEN conjunct1, rule_format, OF line] unfolding tr by simp
  have "fst (convertToMarkdown net_with_usage ''test text'' custom_prompt_settings []) \<noteq> []"
    by (simp add: convertToMarkdown_requests dispatch_def LLM_PROVIDERS_def callOpenAI_def
                  callBearer_requests custom_prompt_settings_def openai_settings_def trim_def
                  isWhiteSpace_def)
  then have "hd (fst (convertToMarkdown net_with_usage ''test text'' custom_prompt_settings []))
               \<in> set (fst (convertToMarkdown net_with_usage ''test text'' custom_prompt_settings []))"
    by (rule hd_in_set)
  moreover have "customPrompt custom_prompt_settings = '' Use plain headings ''"
    by (simp add: custom_prompt_settings_def)
  ultimately have c: "body_messages (body (hd (fst (convertToMarkdown net_with_usage ''test text'' custom_prompt_settings [])))) =
       [\<lparr> role = ''user'', content = buildPrompt ''test text'' [] (Some '' Use plain headings '') \<rparr>]"
    using t[THEN conjunct2, THEN conjunct2] by blast
  from a b c show ?thesis by blast
qed

section \<open>The local provider\<close>

lemma dispatch_local:
  assumes "provider settings \<notin> {''openai'', ''anthropic'', ''groq''}"
    and "find (\<lambda>p. id p = provider settings) LLM_PROVIDERS = Some prov"
  shows "dispatch net prompt settings = callCustomAPI net prompt settings prov"
  using assms by (simp add: dispatch_def)

lemma callCustomAPI_no_url:
  "string_or (customBaseUrl settings) (baseUrl prov) = [] \<Longrightarrow>
   callCustomAPI net prompt settings prov =
     ([], Inl (Error ''Custom base URL is required for local LLM''))"
  by (simp add: callCustomAPI_def Let_def io_throw_def)

text \<open>
  C7. The local/custom branch is the one \<open>dispatch\<close> takes for a provider of the registry
  that is not \<open>openai\<close>, \<open>anthropic\<close> or \<open>groq\<close>. With \<open>customBaseUrl\<close> when it is given and
  not empty, and the provider's \<open>baseUrl\<close> otherwise, as the base URL: if it is not
  empty, exactly one request is issued, a POST to the base URL followed by
  \<open>/chat/completions\<close>, whose body's \<open>model\<close> is \<open>customModel\<close> when that is given and not
  empty and \<open>custom\<close> otherwise, and whose only header is \<open>Content-Type\<close>, so that it has
  no \<open>Authorization\<close> header; if it is empty, no request is issued and the call fails with
  "Custom base URL is required for local LLM".
\<close>

theorem local_branch_request:
  "(provider settings \<notin> {''openai'', ''anthropic'', ''groq''}
      \<and> find (\<lambda>p. id p = provider settings) LLM_PROVIDERS = Some prov
    \<longrightarrow> dispatch net prompt settings = callCustomAPI net prompt settings prov)
   \<and> (string_or (customBaseUrl settings) (baseUrl prov) \<noteq> []
      \<longrightarrow> fst (callCustomAPI net prompt settings prov) =
            [\<lparr> url = string_or (customBaseUrl settings) (baseUrl prov) @ ''/chat/completions'',
               http_method = ''POST'',
               headers = [(''Content-Type'', ''application/json'')],
               body = \<lparr> body_model = string_or (customModel settings) ''custom'',
                        body_messages = [\<lparr> role = ''user'', content = prompt \<rparr>],
                        body_temperature = temperature settings,
                        body_max_tokens = maxTokens settings \<rparr> \<rparr>]
          \<and> (\<forall>req \<in> set (fst (callCustomAPI net prompt settings prov)).
                 map_of (headers req) ''Authorization'' = None))
   \<and> (string_or (customBaseUrl settings) (baseUrl prov) = []
      \<longrightarrow> callCustomAPI net prompt settings prov =
            ([], Inl (Error ''Custom base URL is required for local LLM'')))"
proof (intro conjI impI)
  assume "provider settings \<notin> {''openai'', ''anthropic'', ''groq''}
      \<and> find (\<lambda>p. id p = provider settings) LLM_PROVIDERS = Some prov"
  then show "dispatch net prompt settings = callCustomAPI net prompt settings prov"
    by (intro dispatch_local) simp_all
next
  assume base: "string_or (customBaseUrl settings) (baseUrl prov) \<noteq> []"
  then show reqs: "fst (callCustomAPI net prompt settings prov) =
            [\<lparr> url = string_or (customBaseUrl settings) (baseUrl prov) @ ''/chat/completions'',
               http_method = ''POST'',
               headers = [(''Content-Type'', ''application/json'')],
               body = \<lparr> body_model = string_or (customModel settings) ''custom'',
                        body_messages = [\<lparr> role = ''user'', content = prompt \<rparr>],
                        body_temperature = temperature settings,
                        body_max_tokens = maxTokens settings \<rparr> \<rparr>]"
    by (simp add: callCustomAPI_requests chatBody_def)
  show "\<forall>req \<in> set (fst (callCustomAPI net prompt settings prov)).
          map_of (headers req) ''Authorization'' = None"
    unfolding reqs by simp
next
  assume "string_or (customBaseUrl settings) (baseUrl prov) = []"
  then show "callCustomAPI net prompt settings prov =
            ([], Inl (Error ''Custom base URL is required for local LLM''))"
    by (rule callCustomAPI_no_url)
qed

theorem local_branch_request_witness:
  "dispatch net_with_usage ''Hello'' local_settings =
     callCustomAPI net_with_usage ''Hello'' local_settings local_provider
   \<and> fst (callCustomAPI net_with_usage ''Hello'' local_settings local_provider) =
       [\<lparr> url = ''http://localhost:11434/v1/chat/completions'',
          http_method = ''POST'',
          headers = [(''Content-Type'', ''application/json'')],
          body = \<lparr> body_model = ''llama2'',
                   body_messages = [\<lparr> role = ''user'', content = ''Hello'' \<rparr>],
                   body_temperature = 1 / 10,
                   body_max_tokens = 4000 \<rparr> \<rparr>]
   \<and> map_of (headers (hd (fst (callCustomAPI net_with_usage ''Hello'' local_settings local_provider))))
         ''Authorization'' = None
   \<and> callCustomAPI net_with_usage ''Hello'' local_default_settings unnamed_provider =
       ([], Inl (Error ''Custom base URL is required for local LLM''))"
proof -
  note t = local_branch_request[of local_settings local_provider net_with_usage "''Hello''"]
  note u = local_branch_request[of local_default_settings unnamed_provider net_with_usage "''Hello''"]
  have found: "provider local_settings \<notin> {''openai'', ''anthropic'', ''groq''}
      \<and> find (\<lambda>p. id p = provider local_settings) LLM_PROVIDERS = Some local_provider"
    by (simp add: local_settings_def LLM_PROVIDERS_def local_provider_def)
  have base: "string_or (customBaseUrl local_settings) (baseUrl local_provider) = ''http://localhost:11434/v1''"
    and mdl: "string_or (customModel local_settings) ''custom'' = ''llama2''"
    and rest: "temperature local_settings = 1 / 10" "maxTokens local_settings = 4000"
    by (simp_all add: local_settings_def string_or_def)
  have none: "string_or (customBaseUrl local_default_settings) (baseUrl unnamed_provider) = []"
    by (simp add: local_default_settings_def unnamed_provider_def string_or_def)
  have a: "dispatch net_with_usage ''Hello'' local_settings =
     callCustomAPI net_with_usage ''Hello'' local_settings local_provider"
    using t[THEN conjunct1] found by (rule mp)
  have b: "fst (callCustomAPI net_with_usage ''Hello'' local_settings local_provider) =
       [\<lparr> url = ''http://localhost:11434/v1/chat/completions'',
          http_method = ''POST'',
          headers = [(''Content-Type'', ''application/json'')],
          body = \<lparr> body_model = ''llama2'',
                   body_messages = [\<lparr> role = ''user'', content = ''Hello'' \<rparr>],
                   body_temperature = 1 / 10,
                   body_max_tokens = 4000 \<rparr> \<rparr>]"
    using t[THEN conjunct2, THEN conjunct1] unfolding base mdl rest by simp
  have c: "map_of (headers (hd (fst (callCustomAPI net_with_usage ''Hello'' local_settings local_provider))))
         ''Authorization'' = None"
    using t[THEN conjunct2, THEN conjunct1] unfolding base by (simp add: b)
  have d: "callCustomAPI net_with_usage ''Hello'' local_default_settings unnamed_provider =
       ([], Inl (Error ''Custom base URL is required for local LLM''))"
    using u[THEN conjunct2, THEN conjunct2] none by (rule mp)
  from a b c d show ?thesis by blast
qed

text \<open>
  C10. Every provider of the registry has a base URL that is not empty. So for settings
  whose provider identifier is found in the registry, the base URL that
  \<open>callCustomAPI\<close> resolves for the provider found is not empty, whatever
  \<open>customBaseUrl\<close> is: the test that guards "Custom base URL is required for local LLM"
  is false, the call issues its request, and it does not fail with that error before
  the request.
\<close>

theorem registry_base_url_never_empty:
  "(\<forall>p \<in> set LLM_PROVIDERS. baseUrl p \<noteq> [])
   \<and> (find (\<lambda>p. id p = provider settings) LLM_PROVIDERS = Some prov
      \<longrightarrow> string_or (customBaseUrl settings) (baseUrl prov) \<noteq> []
          \<and> length (fst (callCustomAPI net prompt settings prov)) = 1
          \<and> callCustomAPI net prompt settings prov \<noteq>
              ([], Inl (Error ''Custom base URL is required for local LLM'')))"
proof (intro conjI impI)
  show all: "\<forall>p \<in> set LLM_PROVIDERS. baseUrl p \<noteq> []"
    by (simp add: LLM_PROVIDERS_def)
  assume "find (\<lambda>p. id p = provider settings) LLM_PROVIDERS = Some prov"
  then have "prov \<in> set LLM_PROVIDERS"
    by (auto simp: find_Some_iff)
  with all have "baseUrl prov \<noteq> []" by blast
  then show base: "string_or (customBaseUrl settings) (baseUrl prov) \<noteq> []"
    by (simp add: string_or_def split: option.splits)
  then show one: "length (fst (callCustomAPI net prompt settings prov)) = 1"
    by (simp add: callCustomAPI_requests)
  then show "callCustomAPI net prompt settings prov \<noteq>
              ([], Inl (Error ''Custom base URL is required for local LLM''))"
    by auto
qed

theorem registry_base_url_never_empty_witness:
  "baseUrl local_provider \<noteq> []
   \<and> string_or (customBaseUrl local_default_settings) (baseUrl local_provider) \<noteq> []
   \<and> length (fst (callCustomAPI net_with_usage ''Hello'' local_default_settings local_provider)) = 1
   \<and> callCustomAPI net_with_usage ''Hello'' local_default_settings local_provider \<noteq>
       ([], Inl (Error ''Custom base URL is required for local LLM''))"
proof -
  note t = registry_base_url_never_empty[of local_default_settings local_provider net_with_usage "''Hello''"]
  have mem: "local_provider \<in> set LLM_PROVIDERS"
    by (simp add: LLM_PROVIDERS_def local_provider_def)
  have found: "find (\<lambda>p. id p = provider local_default_settings) LLM_PROVIDERS = Some local_provider"
    by (simp add: local_default_settings_def local_settings_def LLM_PROVIDERS_def local_provider_def)
  have a: "baseUrl local_provider \<noteq> []"
    using t[THEN conjunct1] mem by (rule bspec)
  have b: "string_or (customBaseUrl local_default_settings) (baseUrl local_provider) \<noteq> []
          \<and> length (fst (callCustomAPI net_with_usage ''Hello'' local_default_settings local_provider)) = 1
          \<and> callCustomAPI net_with_usage ''Hello'' local_default_settings local_provider \<noteq>
              ([], Inl (Error ''Custom base URL is required for local LLM''))"
    using t[THEN conjunct2] found by (rule mp)
  from a b show ?thesis by blast
qed

section \<open>The OpenAI call\<close>








section \<open>Failures of the LLM client\<close>

lemma trim_Nil [simp]: "trim [] = []"
  by (simp add: trim_def)

lemma dispatch_unknown_provider:
  "find (\<lambda>p. id p = provider settings) LLM_PROVIDERS = None \<Longrightarrow>
   dispatch net prompt settings = ([], Inl (Error (''Invalid LLM provider: '' @ provider settings)))"
  by (simp add: dispatch_def io_throw_def)

lemma dispatch_missing_key:
  assumes "apiKey settings = []"
  shows "provider settings = ''openai'' \<Longrightarrow>
           dispatch net prompt settings = ([], Inl (Error ''OpenAI API key is required''))"
    and "provider settings = ''anthropic'' \<Longrightarrow>
           dispatch net prompt settings = ([], Inl (Error ''Anthropic API key is required''))"
    and "provider settings = ''groq'' \<Longrightarrow>
           dispatch net prompt settings = ([], Inl (Error ''Groq API key is required''))"
  using assms
  by (simp_all add: dispatch_def LLM_PROVIDERS_def callOpenAI_def callGroq_def callBearer_def
                    callAnthropic_def io_throw_def)

lemma call_fetch_rejected:
  assumes "fetch net = (\<lambda>request. Inl e)"
  shows "fst (callBearer who net prompt settings prov) \<noteq> [] \<Longrightarrow>
           snd (callBearer who net prompt settings prov) = Inl e"
    and "fst (callAnthropic net prompt settings prov) \<noteq> [] \<Longrightarrow>
           snd (callAnthropic net prompt settings prov) = Inl e"
    and "fst (callCustomAPI net prompt settings prov) \<noteq> [] \<Longrightarrow>
           snd (callCustomAPI net prompt settings prov) = Inl e"
  using assms
  by (simp_all add: callBearer_def callAnthropic_def callCustomAPI_def Let_def split: if_splits)

lemma dispatch_fetch_rejected:
  assumes "fetch net = (\<lambda>request. Inl e)" "fst (dispatch net prompt settings) \<noteq> []"
  shows "snd (dispatch net prompt settings) = Inl e"
  using assms(2) call_fetch_rejected[OF assms(1)]
  by (auto simp: dispatch_def callOpenAI_def callGroq_def split: option.splits if_splits)

text \<open>
  C5. For a text that is blank (empty, or empty once trimmed) \<open>convertToMarkdown\<close> resolves
  with the failure "No text content provided for conversion" and elapsed time 0, and has
  issued no request; likewise \<open>processText\<close> for a blank prompt, with "No prompt provided
  for text processing". Both always resolve with a result and never reject: whatever is
  thrown while the provider is resolved and called becomes a failure result that carries
  the error's message (or "Unknown error occurred") and the elapsed time. That covers an
  unknown provider identifier, a missing API key, and a request that \<open>fetch\<close> rejects.
\<close>

theorem llm_client_failures_are_results:
  "(trim text = []
      \<longrightarrow> convertToMarkdown net text settings examples =
            ([], Inr (Failed ''No text content provided for conversion'' 0)))
   \<and> (trim prompt = []
      \<longrightarrow> processText net prompt settings =
            ([], Inr (Failed ''No prompt provided for text processing'' 0)))
   \<and> (\<exists>result. snd (convertToMarkdown net text settings examples) = Inr result)
   \<and> (\<exists>result. snd (processText net prompt settings) = Inr result)
   \<and> (trim text \<noteq> []
        \<and> snd (dispatch net (buildPrompt text examples (Some (customPrompt settings))) settings) = Inl e
      \<longrightarrow> snd (convertToMarkdown net text settings examples) =
            Inr (Failed (message_or ''Unknown error occurred'' e) (now_at_end net - now_at_start net)))
   \<and> (trim prompt \<noteq> [] \<and> snd (dispatch net prompt settings) = Inl e
      \<longrightarrow> snd (processText net prompt settings) =
            Inr (Failed (message_or ''Unknown error occurred'' e) (now_at_end net - now_at_start net)))
   \<and> (find (\<lambda>p. id p = provider settings) LLM_PROVIDERS = None
      \<longrightarrow> dispatch net prompt settings =
            ([], Inl (Error (''Invalid LLM provider: '' @ provider settings))))
   \<and> (apiKey settings = [] \<and> provider settings = ''openai''
      \<longrightarrow> dispatch net prompt settings = ([], Inl (Error ''OpenAI API key is required'')))
   \<and> (apiKey settings = [] \<and> provider settings = ''anthropic''
      \<longrightarrow> dispatch net prompt settings = ([], Inl (Error ''Anthropic API key is required'')))
   \<and> (apiKey settings = [] \<and> provider settings = ''groq''
      \<longrightarrow> dispatch net prompt settings = ([], Inl (Error ''Groq API key is required'')))
   \<and> (fetch net = (\<lambda>request. Inl e) \<and> fst (dispatch net prompt settings) \<noteq> []
      \<longrightarrow> snd (dispatch net prompt settings) = Inl e)"
proof (intro conjI impI)
  assume "trim text = []"
  then show "convertToMarkdown net text settings examples =
            ([], Inr (Failed ''No text content provided for conversion'' 0))"
    by (simp add: convertToMarkdown_def io_return_def)
next
  assume "trim prompt = []"
  then show "processText net prompt settings =
            ([], Inr (Failed ''No prompt provided for text processing'' 0))"
    by (simp add: processText_def io_return_def)
next
  show "\<exists>result. snd (convertToMarkdown net text settings examples) = Inr result"
    unfolding convertToMarkdown_result by blast
next
  show "\<exists>result. snd (processText net prompt settings) = Inr result"
    unfolding processText_result by blast
next
  assume "trim text \<noteq> []
        \<and> snd (dispatch net (buildPrompt text examples (Some (customPrompt settings))) settings) = Inl e"
  then show "snd (convertToMarkdown net text settings examples) =
            Inr (Failed (message_or ''Unknown error occurred'' e) (now_at_end net - now_at_start net))"
    by (auto simp: convertToMarkdown_result)
next
  assume "trim prompt \<noteq> [] \<and> snd (dispatch net prompt settings) = Inl e"
  then show "snd (processText net prompt settings) =
            Inr (Failed (message_or ''Unknown error occurred'' e) (now_at_end net - now_at_start net))"
    by (auto simp: processText_result)
next
  assume "find (\<lambda>p. id p = provider settings) LLM_PROVIDERS = None"
  then show "dispatch net prompt settings =
            ([], Inl (Error (''Invalid LLM provider: '' @ provider settings)))"
    by (rule dispatch_unknown_provider)
next
  assume "apiKey settings = [] \<and> provider settings = ''openai''"
  then show "dispatch net prompt settings = ([], Inl (Error ''OpenAI API key is required''))"
    by (simp add: dispatch_missing_key)
next
  assume "apiKey settings = [] \<and> provider settings = ''anthropic''"
  then show "dispatch net prompt settings = ([], Inl (Error ''Anthropic API key is required''))"
    by (simp add: dispatch_missing_key)
next
  assume "apiKey settings = [] \<and> provider settings = ''groq''"
  then show "dispatch net prompt settings = ([], Inl (Error ''Groq API key is required''))"
    by (simp add: dispatch_missing_key)
next
  assume "fetch net = (\<lambda>request. Inl e) \<and> fst (dispatch net prompt settings) \<noteq> []"
  then show "snd (dispatch net prompt settings) = Inl e"
    by (intro dispatch_fetch_rejected) simp_all
qed

theorem llm_client_failures_are_results_witness:
  "convertToMarkdown net_with_usage ''  '' openai_settings [] =
     ([], Inr (Failed ''No text content provided for conversion'' 0))
   \<and> processText net_with_usage [] openai_settings =
     ([], Inr (Failed ''No prompt provided for text processing'' 0))
   \<and> snd (convertToMarkdown failing_net ''Some pleading'' openai_settings []) =
     Inr (Failed ''Network error'' 2000)
   \<and> snd (processText net_with_usage ''Clean this'' unknown_provider_settings) =
     Inr (Failed ''Invalid LLM provider: nobody'' 2000)
   \<and> snd (processText net_with_usage ''Clean this'' missing_key_settings) =
     Inr (Failed ''OpenAI API key is required'' 2000)"
proof -
  have blank: "trim ''  '' = []" "trim [] = []"
    by (simp_all add: trim_def isWhiteSpace_def)
  have filled: "trim ''Some pleading'' \<noteq> []" "trim ''Clean this'' \<noteq> []"
    by (simp_all add: trim_def isWhiteSpace_def)
  have clock: "now_at_end failing_net - now_at_start failing_net = 2000"
      "now_at_end net_with_usage - now_at_start net_with_usage = 2000"
    by (simp_all add: failing_net_def net_with_usage_def)
  have a: "convertToMarkdown net_with_usage ''  '' openai_settings [] =
     ([], Inr (Failed ''No text content provided for conversion'' 0))"
    using llm_client_failures_are_results[of "''  ''" net_with_usage openai_settings "[]",
        THEN conjunct1] blank(1)
    by (rule mp)
  have b: "processText net_with_usage [] openai_settings =
     ([], Inr (Failed ''No prompt provided for text processing'' 0))"
    using llm_client_failures_are_results[of _ net_with_usage openai_settings _ "[]",
        THEN conjunct2, THEN conjunct1] blank(2)
    by (rule mp)
  let ?p = "buildPrompt ''Some pleading'' [] (Some (customPrompt openai_settings))"
  note f = llm_client_failures_are_results[of "''Some pleading''" failing_net openai_settings "[]" ?p
        "Error ''Network error''"]
  have "fetch failing_net = (\<lambda>request. Inl (Error ''Network error''))
        \<and> fst (dispatch failing_net ?p openai_settings) \<noteq> []"
    by (simp add: failing_net_def dispatch_def LLM_PROVIDERS_def callOpenAI_def callBearer_requests
                  openai_settings_def)
  then have "snd (dispatch failing_net ?p openai_settings) = Inl (Error ''Network error'')"
    using f by blast
  then have "snd (convertToMarkdown failing_net ''Some pleading'' openai_settings []) =
     Inr (Failed (message_or ''Unknown error occurred'' (Error ''Network error''))
            (now_at_end failing_net - now_at_start failing_net))"
    using f filled(1) by blast
  then have c: "snd (convertToMarkdown failing_net ''Some pleading'' openai_settings []) =
     Inr (Failed ''Network error'' 2000)"
    unfolding clock by simp
  note u = llm_client_failures_are_results[of _ net_with_usage unknown_provider_settings _
        "''Clean this''" "Error (''Invalid LLM provider: '' @ provider unknown_provider_settings)"]
  have "find (\<lambda>p. id p = provider unknown_provider_settings) LLM_PROVIDERS = None"
    by (simp add: unknown_provider_settings_def openai_settings_def LLM_PROVIDERS_def)
  then have "dispatch net_with_usage ''Clean this'' unknown_provider_settings =
     ([], Inl (Error (''Invalid LLM provider: '' @ provider unknown_provider_settings)))"
    using u by blast
  then have "snd (dispatch net_with_usage ''Clean this'' unknown_provider_settings) =
     Inl (Error (''Invalid LLM provider: '' @ provider unknown_provider_settings))"
    by simp
  then have "snd (processText net_with_usage ''Clean this'' unknown_provider_settings) =
     Inr (Failed (message_or ''Unknown error occurred''
                    (Error (''Invalid LLM provider: '' @ provider unknown_provider_settings)))
            (now_at_end net_with_usage - now_at_start net_with_usage))"
    using u filled(2) by blast
  then have d: "snd (processText net_with_usage ''Clean this'' unknown_provider_settings) =
     Inr (Failed ''Invalid LLM provider: nobody'' 2000)"
    unfolding clock by (simp add: unknown_provider_settings_def)
  note m = llm_client_failures_are_results[of _ net_with_usage missing_key_settings _
        "''Clean this''" "Error ''OpenAI API key is required''"]
  have "apiKey missing_key_settings = [] \<and> provider missing_key_settings = ''openai''"
    by (simp add: missing_key_settings_def openai_settings_def)
  then have "dispatch net_with_usage ''Clean this'' missing_key_settings =
     ([], Inl (Error ''OpenAI API key is required''))"
    using m by blast
  then have "snd (dispatch net_with_usage ''Clean this'' missing_key_settings) =
     Inl (Error ''OpenAI API key is required'')"
    by simp
  then have "snd (processText net_with_usage ''Clean this'' missing_key_settings) =
     Inr (Failed (message_or ''Unknown error occurred'' (Error ''OpenAI API key is required''))
            (now_at_end net_with_usage - now_at_start net_with_usage))"
    using m filled(2) by blast
  then have e: "snd (processText net_with_usage ''Clean this'' missing_key_settings) =
     Inr (Failed ''OpenAI API key is required'' 2000)"
    unfolding clock by simp
  from a b c d e show ?thesis by blast
qed

section \<open>formatFileSize\<close>

text \<open>What \<open>formatFileSize\<close> does below \<open>1024^4\<close>: the listed values, and the unit
  \<open>sizes[i]\<close> for the largest \<open>i\<close> with \<open>1024^i \<le> b\<close>.\<close>

lemma formatFileSize_listed_values:
  "formatFileSize 0 = ''0 Bytes''"
  "b < 0 \<Longrightarrow> formatFileSize b = ''Invalid size''"
  "1024 \<le> b \<Longrightarrow> b \<le> 1048575 \<Longrightarrow> endsWith (formatFileSize b) ''KB''"
  "formatFileSize 1536 = ''1.5 KB''"
  "formatFileSize 1024 = ''1 KB''"
  "formatFileSize 1048576 = ''1 MB''"
  "formatFileSize 1073741824 = ''1 GB''"
proof -
  show "formatFileSize 0 = ''0 Bytes''"
    by (simp add: formatFileSize_def)
  show "b < 0 \<Longrightarrow> formatFileSize b = ''Invalid size''"
    by (simp add: formatFileSize_def)
  show "endsWith (formatFileSize b) ''KB''" if "1024 \<le> b" "b \<le> 1048575"
  proof -
    have "formatFileSize b = (show_hundredths (toFixed2 (nat b) 1024) @ '' '') @ ''KB''"
      using formatFileSize_KB[OF that] by simp
    then show ?thesis by (simp only: endsWith_append)
  qed
  show "formatFileSize 1536 = ''1.5 KB''"
    by (simp add: formatFileSize_defs)
  show "formatFileSize 1024 = ''1 KB''"
    by (simp add: formatFileSize_defs)
  show "formatFileSize 1048576 = ''1 MB''"
    by (simp add: formatFileSize_defs)
  show "formatFileSize 1073741824 = ''1 GB''"
    by (simp add: formatFileSize_defs)
qed

text \<open>
  C8. The values the claim lists are the ones \<open>formatFileSize\<close> returns, and below
  \<open>1024^4\<close> the unit is chosen from Bytes, KB, MB, GB as the claim says
  (\<open>formatFileSize_listed_values\<close>, \<open>formatFileSize_unit\<close>). From \<open>1024^4\<close> on it is
  not: for 2,199,023,255,552 bytes (two tebibytes) the quotient of the logarithms is
  4.1, the index is 4, \<open>sizes\<close> has no entry 4, and the result is "2 undefined" where
  the largest unit of the four would give "2048 GB".
\<close>

theorem formatFileSize_two_tebibytes:
  "formatFileSize 2199023255552 = ''2 undefined''"
  by (simp add: formatFileSize_defs)

end
